theory Spec2Isabelle
  imports Main
begin

section \<open>Python values and exceptions\<close>

text \<open>
  The module \<^verbatim>\<open>cryptography/x509/ocsp.py\<close> is dynamically typed: every argument of a
  builder method is an arbitrary Python object, and the methods test it with
  \<^verbatim>\<open>isinstance\<close> and \<^verbatim>\<open>is None\<close>. Arguments are therefore values of one sum type
  \<open>pyval\<close>; the discriminators \<open>is_Certificate\<close>, \<open>is_Datetime\<close>, ... are the
  \<^verbatim>\<open>isinstance\<close> tests. A raised exception is the \<open>Inl\<close> branch of a result; the
  message is kept because several distinct checks raise the same exception class.
\<close>

datatype error =
    TypeError string
  | ValueError string
  | OverflowError string

text \<open>An \<^verbatim>\<open>x509.Certificate\<close> object; the builders never look inside it.\<close>

datatype Certificate = Certificate nat

text \<open>
  The hash classes of \<^verbatim>\<open>cryptography.hazmat.primitives.hashes\<close>. Only the class
  matters to \<^verbatim>\<open>isinstance\<close>, so digest-size parameters are left out.
\<close>

datatype HashAlgorithm =
    SHA1 | SHA512_224 | SHA512_256 | SHA224 | SHA256 | SHA384 | SHA512
  | SHA3_224 | SHA3_256 | SHA3_384 | SHA3_512 | SHAKE128 | SHAKE256
  | MD5 | BLAKE2b | BLAKE2s | SM3

datatype OCSPResponderEncoding = HASH | NAME

datatype OCSPResponseStatus =
    SUCCESSFUL | MALFORMED_REQUEST | INTERNAL_ERROR | TRY_LATER | SIG_REQUIRED | UNAUTHORIZED

datatype OCSPCertStatus = GOOD | REVOKED | UNKNOWN

text \<open>
  A member of the \<^verbatim>\<open>x509.ReasonFlags\<close> enumeration, named by its value. The
  enumeration is declared outside this module, which only tests membership.
\<close>

datatype ReasonFlags = ReasonFlags string

text \<open>
  A \<^verbatim>\<open>datetime.datetime\<close>: \<open>wall\<close> is the reading of its date and time fields, counted
  in microseconds from 0001-01-01T00:00:00 (the order Python compares naive datetimes
  by); \<open>utcoffset\<close> is the offset of its \<^verbatim>\<open>tzinfo\<close> in microseconds, \<open>None\<close> for a
  naive datetime.
\<close>

record datetime =
  wall :: int
  utcoffset :: "int option"

text \<open>
  An \<^verbatim>\<open>x509.ExtensionType\<close> instance: the object identifier of its class and its
  encoded content.
\<close>

record ExtensionType =
  oid :: string
  content :: string

text \<open>\<^verbatim>\<open>x509.Extension(oid, critical, value)\<close>.\<close>

record Extension =
  ext_oid :: string
  critical :: bool
  ext_value :: ExtensionType

datatype pyval =
    PyNone
  | PyBool bool
  | PyInt int
  | PyStr string
  | is_Certificate: PyCertificate Certificate
  | is_HashAlgorithm: PyHash (as_HashAlgorithm: HashAlgorithm)
  | is_Datetime: PyDatetime (as_Datetime: datetime)
  | is_OCSPCertStatus: PyCertStatus (as_OCSPCertStatus: OCSPCertStatus)
  | is_ReasonFlags: PyReasonFlags ReasonFlags
  | is_OCSPResponseStatus: PyResponseStatus (as_OCSPResponseStatus: OCSPResponseStatus)
  | is_OCSPResponderEncoding: PyResponderEncoding OCSPResponderEncoding
  | is_ExtensionType: PyExtensionType (as_ExtensionType: ExtensionType)
  | PyPrivateKey nat

section \<open>Hash algorithm registry\<close>

definition ALLOWED_HASHES :: "HashAlgorithm list" where
  "ALLOWED_HASHES = [SHA1, SHA224, SHA256, SHA384, SHA512]"

text \<open>\<^verbatim>\<open>isinstance(algorithm, _ALLOWED_HASHES)\<close>: an instance of one of the listed classes.\<close>

definition isinstance_hashes :: "pyval \<Rightarrow> HashAlgorithm list \<Rightarrow> bool" where
  "isinstance_hashes v classes = (is_HashAlgorithm v \<and> as_HashAlgorithm v \<in> set classes)"

definition verify_algorithm :: "pyval \<Rightarrow> error + unit" where
  "verify_algorithm algorithm =
     (if \<not> isinstance_hashes algorithm ALLOWED_HASHES
      then Inl (ValueError ''Algorithm must be SHA1, SHA224, SHA256, SHA384, or SHA512'')
      else Inr ())"

section \<open>Timestamps\<close>

text \<open>
  Python's proleptic Gregorian calendar (\<^verbatim>\<open>datetime.py\<close>: \<^verbatim>\<open>_is_leap\<close>,
  \<^verbatim>\<open>_days_before_year\<close>, \<^verbatim>\<open>_days_before_month\<close>, \<^verbatim>\<open>_ymd2ord\<close>), used to write
  timestamps by their calendar fields.
\<close>

definition is_leap :: "int \<Rightarrow> bool" where
  "is_leap year = (year mod 4 = 0 \<and> (year mod 100 \<noteq> 0 \<or> year mod 400 = 0))"

definition days_before_year :: "int \<Rightarrow> int" where
  "days_before_year year =
     (let y = year - 1 in y * 365 + y div 4 - y div 100 + y div 400)"

definition days_in_month :: "int \<Rightarrow> int \<Rightarrow> int" where
  "days_in_month year month =
     (if month = 2 then (if is_leap year then 29 else 28)
      else if month = 4 \<or> month = 6 \<or> month = 9 \<or> month = 11 then 30 else 31)"

definition days_before_month :: "int \<Rightarrow> int \<Rightarrow> int" where
  "days_before_month year month = sum_list (map (days_in_month year) [1 .. month - 1])"

definition ymd2ord :: "int \<Rightarrow> int \<Rightarrow> int \<Rightarrow> int" where
  "ymd2ord year month day = days_before_year year + days_before_month year month + day"

text \<open>
  \<^verbatim>\<open>datetime.datetime(year, month, day, hour, minute, second, microsecond, tzinfo)\<close>;
  day ordinal 1 is 0001-01-01.
\<close>

definition mk_datetime ::
  "int \<Rightarrow> int \<Rightarrow> int \<Rightarrow> int \<Rightarrow> int \<Rightarrow> int \<Rightarrow> int \<Rightarrow> int option \<Rightarrow> datetime" where
  "mk_datetime year month day hour minute second microsecond tz =
     \<lparr>wall = (((ymd2ord year month day - 1) * 24 + hour) * 60 + minute) * 60000000
               + second * 1000000 + microsecond,
      utcoffset = tz\<rparr>"

text \<open>The first instant after \<^verbatim>\<open>datetime.max\<close> (9999-12-31T23:59:59.999999): the start of
  the year 10000.\<close>

definition wall_limit :: int where
  "wall_limit = wall (mk_datetime 10000 1 1 0 0 0 0 None)"

text \<open>\<^verbatim>\<open>a < b\<close> on two naive datetimes.\<close>

definition datetime_less :: "datetime \<Rightarrow> datetime \<Rightarrow> bool" where
  "datetime_less a b = (wall a < wall b)"

text \<open>
  Modelled from the spec: the constant \<^verbatim>\<open>_EARLIEST_UTC_TIME\<close> of
  \<^verbatim>\<open>cryptography.x509.base\<close> is not among the sources; the spec gives it as the fixed
  epoch floor 1950-01-01.
\<close>

definition EARLIEST_UTC_TIME :: datetime where
  "EARLIEST_UTC_TIME = mk_datetime 1950 1 1 0 0 0 0 None"

text \<open>
  Modelled from the spec: the helper \<^verbatim>\<open>_convert_to_naive_utc_time\<close> of
  \<^verbatim>\<open>cryptography.x509.base\<close> is not among the sources; the spec says that timestamps
  are normalized to UTC. A naive datetime is taken to be in UTC already; an aware one
  has its offset subtracted and its \<^verbatim>\<open>tzinfo\<close> dropped. Python's datetime arithmetic
  raises \<^verbatim>\<open>OverflowError\<close> when the result leaves the years 1 to 9999.
\<close>

definition convert_to_naive_utc_time :: "datetime \<Rightarrow> error + datetime" where
  "convert_to_naive_utc_time time =
     (case utcoffset time of
        None \<Rightarrow> Inr time
      | Some offset \<Rightarrow>
          (let w = wall time - offset
           in if w < 0 \<or> wall_limit \<le> w then Inl (OverflowError ''date value out of range'')
              else Inr \<lparr>wall = w, utcoffset = None\<rparr>))"

section \<open>The single response record\<close>

text \<open>
  \<^verbatim>\<open>_SingleResponse\<close> stores its arguments as they are (\<^verbatim>\<open>self._cert = cert\<close>, ...),
  except \<^verbatim>\<open>revocation_time\<close>, which is rebound to its normalized value before it is
  stored.
\<close>

record SingleResponse =
  cert :: pyval
  issuer :: pyval
  algorithm :: pyval
  this_update :: pyval
  next_update :: pyval
  cert_status :: pyval
  revocation_time :: pyval
  revocation_reason :: pyval

definition SingleResponse_init ::
  "pyval \<Rightarrow> pyval \<Rightarrow> pyval \<Rightarrow> pyval \<Rightarrow> pyval \<Rightarrow> pyval \<Rightarrow> pyval \<Rightarrow> pyval \<Rightarrow> error + SingleResponse" where
  "SingleResponse_init c i a st tu nu rt rr =
     (if \<not> is_Certificate c \<or> \<not> is_Certificate i
      then Inl (TypeError ''cert and issuer must be a Certificate'')
      else case verify_algorithm a of
        Inl e \<Rightarrow> Inl e
      | Inr _ \<Rightarrow>
        if \<not> is_Datetime tu
        then Inl (TypeError ''this_update must be a datetime object'')
        else if nu \<noteq> PyNone \<and> \<not> is_Datetime nu
        then Inl (TypeError ''next_update must be a datetime object or None'')
        else if \<not> is_OCSPCertStatus st
        then Inl (TypeError ''cert_status must be an item from the OCSPCertStatus enum'')
        else if st \<noteq> PyCertStatus REVOKED
        then
          (if rt \<noteq> PyNone
           then Inl (ValueError
             ''revocation_time can only be provided if the certificate is revoked'')
           else if rr \<noteq> PyNone
           then Inl (ValueError
             ''revocation_reason can only be provided if the certificate is revoked'')
           else Inr \<lparr>cert = c, issuer = i, algorithm = a, this_update = tu,
                     next_update = nu, cert_status = st, revocation_time = rt,
                     revocation_reason = rr\<rparr>)
        else
          (if \<not> is_Datetime rt
           then Inl (TypeError ''revocation_time must be a datetime object'')
           else case convert_to_naive_utc_time (as_Datetime rt) of
             Inl e \<Rightarrow> Inl e
           | Inr t \<Rightarrow>
             if datetime_less t EARLIEST_UTC_TIME
             then Inl (ValueError ''The revocation_time must be on or after 1950 January 1.'')
             else if rr \<noteq> PyNone \<and> \<not> is_ReasonFlags rr
             then Inl (TypeError
               ''revocation_reason must be an item from the ReasonFlags enum or None'')
             else Inr \<lparr>cert = c, issuer = i, algorithm = a, this_update = tu,
                       next_update = nu, cert_status = st, revocation_time = PyDatetime t,
                       revocation_reason = rr\<rparr>))"

section \<open>Extensions\<close>

text \<open>
  Modelled from the spec: the helper \<^verbatim>\<open>_reject_duplicate_extension\<close> of
  \<^verbatim>\<open>cryptography.x509.base\<close> is not among the sources. The spec says that adding an
  extension fails if an extension with that identifier already exists in the list, and
  that the detection is identifier-based, not value-based. The failure is a
  \<^verbatim>\<open>ValueError\<close>; the spec does not fix its message.
\<close>

fun reject_duplicate_extension :: "Extension \<Rightarrow> Extension list \<Rightarrow> error + unit" where
  "reject_duplicate_extension extension [] = Inr ()"
| "reject_duplicate_extension extension (e # es) =
     (if ext_oid e = ext_oid extension
      then Inl (ValueError ''This extension has already been set.'')
      else reject_duplicate_extension extension es)"

text \<open>
  \<^verbatim>\<open>x509.Extension(extval.oid, critical, extval)\<close>. The criticality flag is a boolean
  (the constructor of \<^verbatim>\<open>x509.Extension\<close> admits nothing else).
\<close>

definition mk_Extension :: "ExtensionType \<Rightarrow> bool \<Rightarrow> Extension" where
  "mk_Extension extval crit = \<lparr>ext_oid = oid extval, critical = crit, ext_value = extval\<rparr>"

section \<open>The backend collaborator\<close>

text \<open>
  \<^verbatim>\<open>build\<close>, \<^verbatim>\<open>sign\<close> and \<^verbatim>\<open>build_unsuccessful\<close> end in a call of the OpenSSL
  backend, which encodes and signs. The backend is outside this module: a method that
  passes all of its own checks returns the call it hands over, with its arguments, and
  the method's result is whatever the backend makes of that call.
\<close>

record OCSPRequestBuilder =
  rq_request :: "(pyval \<times> pyval \<times> pyval) option"
  rq_extensions :: "Extension list"

record OCSPResponseBuilder =
  rs_response :: "SingleResponse option"
  rs_responder_id :: "(pyval \<times> pyval) option"
  rs_certs :: "pyval list option"
  rs_extensions :: "Extension list"

datatype backend_call =
    create_ocsp_request OCSPRequestBuilder
  | create_ocsp_response OCSPResponseStatus "OCSPResponseBuilder option" pyval pyval

section \<open>The request builder\<close>

text \<open>\<^verbatim>\<open>OCSPRequestBuilder()\<close>: the defaults of \<^verbatim>\<open>__init__\<close>.\<close>

definition new_OCSPRequestBuilder :: OCSPRequestBuilder where
  "new_OCSPRequestBuilder = \<lparr>rq_request = None, rq_extensions = []\<rparr>"

definition add_certificate ::
  "OCSPRequestBuilder \<Rightarrow> pyval \<Rightarrow> pyval \<Rightarrow> pyval \<Rightarrow> error + OCSPRequestBuilder" where
  "add_certificate self c i a =
     (if rq_request self \<noteq> None
      then Inl (ValueError ''Only one certificate can be added to a request'')
      else case verify_algorithm a of
        Inl e \<Rightarrow> Inl e
      | Inr _ \<Rightarrow>
        if \<not> is_Certificate c \<or> \<not> is_Certificate i
        then Inl (TypeError ''cert and issuer must be a Certificate'')
        else Inr \<lparr>rq_request = Some (c, i, a), rq_extensions = rq_extensions self\<rparr>)"

definition request_add_extension ::
  "OCSPRequestBuilder \<Rightarrow> pyval \<Rightarrow> bool \<Rightarrow> error + OCSPRequestBuilder" where
  "request_add_extension self extval crit =
     (if \<not> is_ExtensionType extval
      then Inl (TypeError ''extension must be an ExtensionType'')
      else let extension = mk_Extension (as_ExtensionType extval) crit
           in case reject_duplicate_extension extension (rq_extensions self) of
                Inl e \<Rightarrow> Inl e
              | Inr _ \<Rightarrow>
                Inr \<lparr>rq_request = rq_request self,
                     rq_extensions = rq_extensions self @ [extension]\<rparr>)"

definition build :: "OCSPRequestBuilder \<Rightarrow> error + backend_call" where
  "build self =
     (if rq_request self = None
      then Inl (ValueError ''You must add a certificate before building'')
      else Inr (create_ocsp_request self))"

section \<open>The response builder\<close>

text \<open>\<^verbatim>\<open>OCSPResponseBuilder()\<close>: the defaults of \<^verbatim>\<open>__init__\<close>.\<close>

definition new_OCSPResponseBuilder :: OCSPResponseBuilder where
  "new_OCSPResponseBuilder =
     \<lparr>rs_response = None, rs_responder_id = None, rs_certs = None, rs_extensions = []\<rparr>"

definition add_response ::
  "OCSPResponseBuilder \<Rightarrow> pyval \<Rightarrow> pyval \<Rightarrow> pyval \<Rightarrow> pyval \<Rightarrow> pyval \<Rightarrow> pyval \<Rightarrow> pyval \<Rightarrow> pyval
     \<Rightarrow> error + OCSPResponseBuilder" where
  "add_response self c i a st tu nu rt rr =
     (if rs_response self \<noteq> None
      then Inl (ValueError ''Only one response per OCSPResponse.'')
      else case SingleResponse_init c i a st tu nu rt rr of
        Inl e \<Rightarrow> Inl e
      | Inr singleresp \<Rightarrow>
        Inr \<lparr>rs_response = Some singleresp, rs_responder_id = rs_responder_id self,
             rs_certs = rs_certs self, rs_extensions = rs_extensions self\<rparr>)"

definition responder_id ::
  "OCSPResponseBuilder \<Rightarrow> pyval \<Rightarrow> pyval \<Rightarrow> error + OCSPResponseBuilder" where
  "responder_id self encoding responder_cert =
     (if rs_responder_id self \<noteq> None
      then Inl (ValueError ''responder_id can only be set once'')
      else if \<not> is_Certificate responder_cert
      then Inl (TypeError ''responder_cert must be a Certificate'')
      else if \<not> is_OCSPResponderEncoding encoding
      then Inl (TypeError ''encoding must be an element from OCSPResponderEncoding'')
      else Inr \<lparr>rs_response = rs_response self,
                rs_responder_id = Some (responder_cert, encoding),
                rs_certs = rs_certs self, rs_extensions = rs_extensions self\<rparr>)"

text \<open>
  The argument of \<^verbatim>\<open>certificates\<close> is the list \<^verbatim>\<open>list(certs)\<close> makes of the iterable
  it is given.
\<close>

definition certificates :: "OCSPResponseBuilder \<Rightarrow> pyval list \<Rightarrow> error + OCSPResponseBuilder" where
  "certificates self certs =
     (if rs_certs self \<noteq> None
      then Inl (ValueError ''certificates may only be set once'')
      else if length certs = 0
      then Inl (ValueError ''certs must not be an empty list'')
      else if \<not> list_all is_Certificate certs
      then Inl (TypeError ''certs must be a list of Certificates'')
      else Inr \<lparr>rs_response = rs_response self, rs_responder_id = rs_responder_id self,
                rs_certs = Some certs, rs_extensions = rs_extensions self\<rparr>)"

definition response_add_extension ::
  "OCSPResponseBuilder \<Rightarrow> pyval \<Rightarrow> bool \<Rightarrow> error + OCSPResponseBuilder" where
  "response_add_extension self extval crit =
     (if \<not> is_ExtensionType extval
      then Inl (TypeError ''extension must be an ExtensionType'')
      else let extension = mk_Extension (as_ExtensionType extval) crit
           in case reject_duplicate_extension extension (rs_extensions self) of
                Inl e \<Rightarrow> Inl e
              | Inr _ \<Rightarrow>
                Inr \<lparr>rs_response = rs_response self,
                     rs_responder_id = rs_responder_id self,
                     rs_certs = rs_certs self,
                     rs_extensions = rs_extensions self @ [extension]\<rparr>)"

definition sign :: "OCSPResponseBuilder \<Rightarrow> pyval \<Rightarrow> pyval \<Rightarrow> error + backend_call" where
  "sign self private_key alg =
     (if rs_response self = None
      then Inl (ValueError ''You must add a response before signing'')
      else if rs_responder_id self = None
      then Inl (ValueError ''You must add a responder_id before signing'')
      else Inr (create_ocsp_response SUCCESSFUL (Some self) private_key alg))"

text \<open>A class method: it has no receiver, and so no builder state to read.\<close>

definition build_unsuccessful :: "pyval \<Rightarrow> error + backend_call" where
  "build_unsuccessful response_status =
     (if \<not> is_OCSPResponseStatus response_status
      then Inl (TypeError ''response_status must be an item from OCSPResponseStatus'')
      else if response_status = PyResponseStatus SUCCESSFUL
      then Inl (ValueError ''response_status cannot be SUCCESSFUL'')
      else Inr (create_ocsp_response (as_OCSPResponseStatus response_status)
                  None PyNone PyNone))"

section \<open>Chained calls and builder objects\<close>

text \<open>
  The operations that return a builder, with their arguments: each names one method call
  of the source on a receiver.
\<close>

datatype request_op =
    AddCertificate pyval pyval pyval
  | RequestAddExtension pyval bool

datatype response_op =
    AddResponse pyval pyval pyval pyval pyval pyval pyval pyval
  | ResponderId pyval pyval
  | is_Certificates: Certificates "pyval list"
  | ResponseAddExtension pyval bool

fun request_method :: "request_op \<Rightarrow> OCSPRequestBuilder \<Rightarrow> error + OCSPRequestBuilder" where
  "request_method (AddCertificate c i a) self = add_certificate self c i a"
| "request_method (RequestAddExtension extval crit) self = request_add_extension self extval crit"

fun response_method :: "response_op \<Rightarrow> OCSPResponseBuilder \<Rightarrow> error + OCSPResponseBuilder" where
  "response_method (AddResponse c i a st tu nu rt rr) self =
     add_response self c i a st tu nu rt rr"
| "response_method (ResponderId encoding responder_cert) self =
     responder_id self encoding responder_cert"
| "response_method (Certificates certs) self = certificates self certs"
| "response_method (ResponseAddExtension extval crit) self =
     response_add_extension self extval crit"

text \<open>
  A chained expression \<^verbatim>\<open>b.m1(...).m2(...)\<close>: each call is made on the builder the
  previous call returned, and the first exception ends the chain.
\<close>

fun chain :: "('o \<Rightarrow> 'b \<Rightarrow> error + 'b) \<Rightarrow> 'b \<Rightarrow> 'o list \<Rightarrow> error + 'b" where
  "chain m b [] = Inr b"
| "chain m b (x # xs) = (case m x b of Inl e \<Rightarrow> Inl e | Inr b' \<Rightarrow> chain m b' xs)"

text \<open>
  Builders as Python objects. The store holds the builder objects: \<open>objects h p\<close> is the
  object that the reference \<open>p\<close> points at, and the references below \<open>next_ref h\<close> are
  the ones handed out so far. A constructor call \<^verbatim>\<open>OCSPRequestBuilder(...)\<close>
  (\<^verbatim>\<open>OCSPResponseBuilder(...)\<close>) puts the new object at the next free reference and
  returns that reference.
\<close>

record 'b store =
  objects :: "nat \<Rightarrow> 'b"
  next_ref :: nat

definition new_object :: "'b store \<Rightarrow> 'b \<Rightarrow> 'b store \<times> (error + nat)" where
  "new_object h b =
     (\<lparr>objects = (objects h)(next_ref h := b), next_ref = Suc (next_ref h)\<rparr>,
      Inr (next_ref h))"

text \<open>
  The builder-returning methods as they run on the store, statement by statement: the
  receiver is the reference \<open>self\<close>, \<^verbatim>\<open>self._request\<close> is read from the object at
  \<open>self\<close>, \<^verbatim>\<open>raise\<close> returns the store it was given together with the exception, and
  \<^verbatim>\<open>return OCSPRequestBuilder(...)\<close> is the constructor call. An assignment to an
  attribute of \<open>self\<close> would be an update of \<open>objects h\<close> at \<open>self\<close>; the source has
  none outside \<^verbatim>\<open>__init__\<close>.
\<close>

definition add_certificate_call ::
  "OCSPRequestBuilder store \<Rightarrow> nat \<Rightarrow> pyval \<Rightarrow> pyval \<Rightarrow> pyval
     \<Rightarrow> OCSPRequestBuilder store \<times> (error + nat)" where
  "add_certificate_call h self c i a =
     (if rq_request (objects h self) \<noteq> None
      then (h, Inl (ValueError ''Only one certificate can be added to a request''))
      else case verify_algorithm a of
        Inl e \<Rightarrow> (h, Inl e)
      | Inr _ \<Rightarrow>
        if \<not> is_Certificate c \<or> \<not> is_Certificate i
        then (h, Inl (TypeError ''cert and issuer must be a Certificate''))
        else new_object h
               \<lparr>rq_request = Some (c, i, a), rq_extensions = rq_extensions (objects h self)\<rparr>)"

definition request_add_extension_call ::
  "OCSPRequestBuilder store \<Rightarrow> nat \<Rightarrow> pyval \<Rightarrow> bool
     \<Rightarrow> OCSPRequestBuilder store \<times> (error + nat)" where
  "request_add_extension_call h self extval crit =
     (if \<not> is_ExtensionType extval
      then (h, Inl (TypeError ''extension must be an ExtensionType''))
      else let extension = mk_Extension (as_ExtensionType extval) crit
           in case reject_duplicate_extension extension (rq_extensions (objects h self)) of
                Inl e \<Rightarrow> (h, Inl e)
              | Inr _ \<Rightarrow>
                new_object h
                  \<lparr>rq_request = rq_request (objects h self),
                   rq_extensions = rq_extensions (objects h self) @ [extension]\<rparr>)"

definition add_response_call ::
  "OCSPResponseBuilder store \<Rightarrow> nat \<Rightarrow> pyval \<Rightarrow> pyval \<Rightarrow> pyval \<Rightarrow> pyval \<Rightarrow> pyval \<Rightarrow> pyval
     \<Rightarrow> pyval \<Rightarrow> pyval \<Rightarrow> OCSPResponseBuilder store \<times> (error + nat)" where
  "add_response_call h self c i a st tu nu rt rr =
     (if rs_response (objects h self) \<noteq> None
      then (h, Inl (ValueError ''Only one response per OCSPResponse.''))
      else case SingleResponse_init c i a st tu nu rt rr of
        Inl e \<Rightarrow> (h, Inl e)
      | Inr singleresp \<Rightarrow>
        new_object h
          \<lparr>rs_response = Some singleresp,
           rs_responder_id = rs_responder_id (objects h self),
           rs_certs = rs_certs (objects h self),
           rs_extensions = rs_extensions (objects h self)\<rparr>)"

definition responder_id_call ::
  "OCSPResponseBuilder store \<Rightarrow> nat \<Rightarrow> pyval \<Rightarrow> pyval
     \<Rightarrow> OCSPResponseBuilder store \<times> (error + nat)" where
  "responder_id_call h self encoding responder_cert =
     (if rs_responder_id (objects h self) \<noteq> None
      then (h, Inl (ValueError ''responder_id can only be set once''))
      else if \<not> is_Certificate responder_cert
      then (h, Inl (TypeError ''responder_cert must be a Certificate''))
      else if \<not> is_OCSPResponderEncoding encoding
      then (h, Inl (TypeError ''encoding must be an element from OCSPResponderEncoding''))
      else new_object h
             \<lparr>rs_response = rs_response (objects h self),
              rs_responder_id = Some (responder_cert, encoding),
              rs_certs = rs_certs (objects h self),
              rs_extensions = rs_extensions (objects h self)\<rparr>)"

definition certificates_call ::
  "OCSPResponseBuilder store \<Rightarrow> nat \<Rightarrow> pyval list
     \<Rightarrow> OCSPResponseBuilder store \<times> (error + nat)" where
  "certificates_call h self certs =
     (if rs_certs (objects h self) \<noteq> None
      then (h, Inl (ValueError ''certificates may only be set once''))
      else if length certs = 0
      then (h, Inl (ValueError ''certs must not be an empty list''))
      else if \<not> list_all is_Certificate certs
      then (h, Inl (TypeError ''certs must be a list of Certificates''))
      else new_object h
             \<lparr>rs_response = rs_response (objects h self),
              rs_responder_id = rs_responder_id (objects h self),
              rs_certs = Some certs,
              rs_extensions = rs_extensions (objects h self)\<rparr>)"

definition response_add_extension_call ::
  "OCSPResponseBuilder store \<Rightarrow> nat \<Rightarrow> pyval \<Rightarrow> bool
     \<Rightarrow> OCSPResponseBuilder store \<times> (error + nat)" where
  "response_add_extension_call h self extval crit =
     (if \<not> is_ExtensionType extval
      then (h, Inl (TypeError ''extension must be an ExtensionType''))
      else let extension = mk_Extension (as_ExtensionType extval) crit
           in case reject_duplicate_extension extension (rs_extensions (objects h self)) of
                Inl e \<Rightarrow> (h, Inl e)
              | Inr _ \<Rightarrow>
                new_object h
                  \<lparr>rs_response = rs_response (objects h self),
                   rs_responder_id = rs_responder_id (objects h self),
                   rs_certs = rs_certs (objects h self),
                   rs_extensions = rs_extensions (objects h self) @ [extension]\<rparr>)"

text \<open>One call on a receiver of the store, named by its operation.\<close>

fun request_call ::
  "OCSPRequestBuilder store \<Rightarrow> nat \<Rightarrow> request_op \<Rightarrow> OCSPRequestBuilder store \<times> (error + nat)" where
  "request_call h self (AddCertificate c i a) = add_certificate_call h self c i a"
| "request_call h self (RequestAddExtension extval crit) =
     request_add_extension_call h self extval crit"

fun response_call ::
  "OCSPResponseBuilder store \<Rightarrow> nat \<Rightarrow> response_op
     \<Rightarrow> OCSPResponseBuilder store \<times> (error + nat)" where
  "response_call h self (AddResponse c i a st tu nu rt rr) =
     add_response_call h self c i a st tu nu rt rr"
| "response_call h self (ResponderId encoding responder_cert) =
     responder_id_call h self encoding responder_cert"
| "response_call h self (Certificates certs) = certificates_call h self certs"
| "response_call h self (ResponseAddExtension extval crit) =
     response_add_extension_call h self extval crit"

section \<open>Helper facts\<close>

lemma verify_algorithm_Inr:
  "(verify_algorithm a = Inr ()) =
     (a \<in> {PyHash SHA1, PyHash SHA224, PyHash SHA256, PyHash SHA384, PyHash SHA512})"
  by (cases a) (auto simp: verify_algorithm_def isinstance_hashes_def ALLOWED_HASHES_def)

lemma verify_algorithm_Inl:
  "a \<notin> {PyHash SHA1, PyHash SHA224, PyHash SHA256, PyHash SHA384, PyHash SHA512} \<Longrightarrow>
   verify_algorithm a = Inl (ValueError ''Algorithm must be SHA1, SHA224, SHA256, SHA384, or SHA512'')"
  using verify_algorithm_Inr [of a] by (simp add: verify_algorithm_def split: if_splits)

lemma reject_duplicate_extension_eq:
  "reject_duplicate_extension x es =
     (if ext_oid x \<in> ext_oid ` set es
      then Inl (ValueError ''This extension has already been set.'') else Inr ())"
  by (induction es) auto

lemma request_add_extension_eq:
  "request_add_extension b (PyExtensionType ev) cr =
     (if oid ev \<in> ext_oid ` set (rq_extensions b)
      then Inl (ValueError ''This extension has already been set.'')
      else Inr (b\<lparr>rq_extensions := rq_extensions b @ [mk_Extension ev cr]\<rparr>))"
  by (simp add: request_add_extension_def reject_duplicate_extension_eq mk_Extension_def Let_def)

lemma response_add_extension_eq:
  "response_add_extension b (PyExtensionType ev) cr =
     (if oid ev \<in> ext_oid ` set (rs_extensions b)
      then Inl (ValueError ''This extension has already been set.'')
      else Inr (b\<lparr>rs_extensions := rs_extensions b @ [mk_Extension ev cr]\<rparr>))"
  by (simp add: response_add_extension_def reject_duplicate_extension_eq mk_Extension_def Let_def)

lemma ext_oid_mk_Extension: "ext_oid (mk_Extension ev cr) = oid ev"
  by (simp add: mk_Extension_def)

lemma chain_request_add_extension:
  "distinct (map (\<lambda>x. oid (fst x)) evs) \<Longrightarrow>
   (\<lambda>x. oid (fst x)) ` set evs \<inter> ext_oid ` set (rq_extensions b) = {} \<Longrightarrow>
   chain request_method b (map (\<lambda>(ev, cr). RequestAddExtension (PyExtensionType ev) cr) evs) =
     Inr (b\<lparr>rq_extensions := rq_extensions b @ map (\<lambda>(ev, cr). mk_Extension ev cr) evs\<rparr>)"
proof (induction evs arbitrary: b)
  case Nil
  then show ?case by simp
next
  case (Cons x evs)
  obtain ev cr where x: "x = (ev, cr)" by (cases x)
  let ?b = "b\<lparr>rq_extensions := rq_extensions b @ [mk_Extension ev cr]\<rparr>"
  from Cons.prems x have fresh: "oid ev \<notin> ext_oid ` set (rq_extensions b)"
    by auto
  from Cons.prems x have d: "distinct (map (\<lambda>x. oid (fst x)) evs)" and
    nin: "oid ev \<notin> (\<lambda>x. oid (fst x)) ` set evs"
    by simp_all
  from Cons.prems x nin have disj: "(\<lambda>x. oid (fst x)) ` set evs \<inter> ext_oid ` set (rq_extensions ?b) = {}"
    by (auto simp: ext_oid_mk_Extension)
  have "chain request_method ?b (map (\<lambda>(ev, cr). RequestAddExtension (PyExtensionType ev) cr) evs) =
     Inr (?b\<lparr>rq_extensions := rq_extensions ?b @ map (\<lambda>(ev, cr). mk_Extension ev cr) evs\<rparr>)"
    by (rule Cons.IH [OF d disj])
  with fresh x show ?case
    by (simp add: request_add_extension_eq)
qed

lemma chain_response_add_extension:
  "distinct (map (\<lambda>x. oid (fst x)) evs) \<Longrightarrow>
   (\<lambda>x. oid (fst x)) ` set evs \<inter> ext_oid ` set (rs_extensions b) = {} \<Longrightarrow>
   chain response_method b (map (\<lambda>(ev, cr). ResponseAddExtension (PyExtensionType ev) cr) evs) =
     Inr (b\<lparr>rs_extensions := rs_extensions b @ map (\<lambda>(ev, cr). mk_Extension ev cr) evs\<rparr>)"
proof (induction evs arbitrary: b)
  case Nil
  then show ?case by simp
next
  case (Cons x evs)
  obtain ev cr where x: "x = (ev, cr)" by (cases x)
  let ?b = "b\<lparr>rs_extensions := rs_extensions b @ [mk_Extension ev cr]\<rparr>"
  from Cons.prems x have fresh: "oid ev \<notin> ext_oid ` set (rs_extensions b)"
    by auto
  from Cons.prems x have d: "distinct (map (\<lambda>x. oid (fst x)) evs)" and
    nin: "oid ev \<notin> (\<lambda>x. oid (fst x)) ` set evs"
    by simp_all
  from Cons.prems x nin have disj: "(\<lambda>x. oid (fst x)) ` set evs \<inter> ext_oid ` set (rs_extensions ?b) = {}"
    by (auto simp: ext_oid_mk_Extension)
  have "chain response_method ?b (map (\<lambda>(ev, cr). ResponseAddExtension (PyExtensionType ev) cr) evs) =
     Inr (?b\<lparr>rs_extensions := rs_extensions ?b @ map (\<lambda>(ev, cr). mk_Extension ev cr) evs\<rparr>)"
    by (rule Cons.IH [OF d disj])
  with fresh x show ?case
    by (simp add: response_add_extension_eq)
qed

lemma response_method_keeps_certs:
  "\<not> is_Certificates x \<Longrightarrow> response_method x rb = Inr rb' \<Longrightarrow> rs_certs rb' = rs_certs rb"
  by (cases x)
     (auto simp: add_response_def responder_id_def response_add_extension_def Let_def
           split: if_splits sum.splits)

lemma chain_keeps_certs:
  "list_all (\<lambda>x. \<not> is_Certificates x) ops \<Longrightarrow> chain response_method rb ops = Inr rb' \<Longrightarrow>
   rs_certs rb' = rs_certs rb"
proof (induction ops arbitrary: rb)
  case Nil
  then show ?case by simp
next
  case (Cons x ops)
  from Cons.prems obtain rb1 where step: "response_method x rb = Inr rb1"
    and rest: "chain response_method rb1 ops = Inr rb'"
    by (auto split: sum.splits)
  from Cons.prems have nx: "\<not> is_Certificates x" and nops: "list_all (\<lambda>x. \<not> is_Certificates x) ops"
    by simp_all
  have "rs_certs rb' = rs_certs rb1" by (rule Cons.IH [OF nops rest])
  also have "rs_certs rb1 = rs_certs rb" by (rule response_method_keeps_certs [OF nx step])
  finally show ?case .
qed

lemmas calendar_defs =
  mk_datetime_def ymd2ord_def days_before_year_def days_before_month_def days_in_month_def
  is_leap_def EARLIEST_UTC_TIME_def datetime_less_def wall_limit_def

lemma convert_to_naive_utc_time_naive:
  "convert_to_naive_utc_time t0 = Inr t \<Longrightarrow> utcoffset t = None"
  by (auto simp: convert_to_naive_utc_time_def Let_def split: option.splits if_splits)

lemma SingleResponse_init_Inr:
  "SingleResponse_init c i a st tu nu rt rr = Inr sr \<Longrightarrow>
   is_Certificate c \<and> is_Certificate i \<and> verify_algorithm a = Inr () \<and>
   is_Datetime tu \<and> (nu = PyNone \<or> is_Datetime nu) \<and> is_OCSPCertStatus st \<and>
   (st \<noteq> PyCertStatus REVOKED \<and> rt = PyNone \<and> rr = PyNone \<and>
    sr = \<lparr>cert = c, issuer = i, algorithm = a, this_update = tu, next_update = nu,
          cert_status = st, revocation_time = PyNone, revocation_reason = PyNone\<rparr>
    \<or> st = PyCertStatus REVOKED \<and> is_Datetime rt \<and> (rr = PyNone \<or> is_ReasonFlags rr) \<and>
      (\<exists>t. convert_to_naive_utc_time (as_Datetime rt) = Inr t \<and>
           \<not> datetime_less t EARLIEST_UTC_TIME \<and>
           sr = \<lparr>cert = c, issuer = i, algorithm = a, this_update = tu, next_update = nu,
                 cert_status = st, revocation_time = PyDatetime t,
                 revocation_reason = rr\<rparr>))"
  unfolding SingleResponse_init_def
  by (simp split: if_splits sum.splits)

lemma add_response_Inr:
  "add_response rb c i a st tu nu rt rr = Inr rb' \<Longrightarrow>
   \<exists>sr. SingleResponse_init c i a st tu nu rt rr = Inr sr \<and> rs_response rb = None \<and>
        rb' = \<lparr>rs_response = Some sr, rs_responder_id = rs_responder_id rb,
               rs_certs = rs_certs rb, rs_extensions = rs_extensions rb\<rparr>"
  unfolding add_response_def
  by (cases "rs_response rb") (auto split: sum.splits)

lemma add_response_isl:
  "isl (SingleResponse_init c i a st tu nu rt rr) \<Longrightarrow> isl (add_response rb c i a st tu nu rt rr)"
  by (cases "SingleResponse_init c i a st tu nu rt rr") (simp_all add: add_response_def)

lemma SingleResponse_init_not_revoked:
  "st \<noteq> PyCertStatus REVOKED \<Longrightarrow> rt \<noteq> PyNone \<or> rr \<noteq> PyNone \<Longrightarrow>
   isl (SingleResponse_init c i a st tu nu rt rr)"
proof (cases "SingleResponse_init c i a st tu nu rt rr")
  case (Inl e)
  then show ?thesis by simp
next
  case (Inr sr)
  assume "st \<noteq> PyCertStatus REVOKED" "rt \<noteq> PyNone \<or> rr \<noteq> PyNone"
  with SingleResponse_init_Inr [OF Inr] show ?thesis by blast
qed

lemma SingleResponse_init_revoked_no_time:
  "\<not> is_Datetime rt \<Longrightarrow> isl (SingleResponse_init c i a (PyCertStatus REVOKED) tu nu rt rr)"
proof (cases "SingleResponse_init c i a (PyCertStatus REVOKED) tu nu rt rr")
  case (Inl e)
  then show ?thesis by simp
next
  case (Inr sr)
  assume "\<not> is_Datetime rt"
  with SingleResponse_init_Inr [OF Inr] show ?thesis by blast
qed

lemma SingleResponse_init_before_floor:
  "convert_to_naive_utc_time t0 = Inr t \<Longrightarrow> datetime_less t EARLIEST_UTC_TIME \<Longrightarrow>
   isl (SingleResponse_init c i a (PyCertStatus REVOKED) tu nu (PyDatetime t0) rr)"
proof (cases "SingleResponse_init c i a (PyCertStatus REVOKED) tu nu (PyDatetime t0) rr")
  case (Inl e)
  then show ?thesis by simp
next
  case (Inr sr)
  assume "convert_to_naive_utc_time t0 = Inr t" "datetime_less t EARLIEST_UTC_TIME"
  with SingleResponse_init_Inr [OF Inr] show ?thesis by auto
qed

lemma verify_algorithm_SHA256: "verify_algorithm (PyHash SHA256) = Inr ()"
  by (simp add: verify_algorithm_def isinstance_hashes_def ALLOWED_HASHES_def)

lemma request_method_frame:
  "request_method x b = Inr b' \<Longrightarrow>
   (case x of
      AddCertificate c i a \<Rightarrow>
        rq_request b = None \<and> rq_request b' = Some (c, i, a) \<and> rq_extensions b' = rq_extensions b
    | RequestAddExtension extval crit \<Rightarrow>
        rq_request b' = rq_request b \<and>
        rq_extensions b' = rq_extensions b @ [mk_Extension (as_ExtensionType extval) crit])"
  by (cases x; cases "rq_request b")
     (auto simp: add_certificate_def request_add_extension_def Let_def
           split: if_splits sum.splits)

lemma response_method_frame:
  "response_method u rb = Inr rb' \<Longrightarrow>
   (case u of
      AddResponse c i a st tu nu rt rr \<Rightarrow>
        rs_response rb = None \<and> rs_response rb' \<noteq> None \<and>
        rs_responder_id rb' = rs_responder_id rb \<and>
        rs_certs rb' = rs_certs rb \<and> rs_extensions rb' = rs_extensions rb
    | ResponderId encoding responder_cert \<Rightarrow>
        rs_responder_id rb = None \<and> rs_responder_id rb' = Some (responder_cert, encoding) \<and>
        rs_response rb' = rs_response rb \<and>
        rs_certs rb' = rs_certs rb \<and> rs_extensions rb' = rs_extensions rb
    | Certificates certs \<Rightarrow>
        rs_certs rb = None \<and> rs_certs rb' = Some certs \<and>
        rs_response rb' = rs_response rb \<and>
        rs_responder_id rb' = rs_responder_id rb \<and> rs_extensions rb' = rs_extensions rb
    | ResponseAddExtension extval crit \<Rightarrow>
        rs_response rb' = rs_response rb \<and> rs_responder_id rb' = rs_responder_id rb \<and>
        rs_certs rb' = rs_certs rb \<and>
        rs_extensions rb' = rs_extensions rb @ [mk_Extension (as_ExtensionType extval) crit])"
proof (cases u)
  case (AddResponse c i a st tu nu rt rr)
  assume "response_method u rb = Inr rb'"
  with AddResponse have "add_response rb c i a st tu nu rt rr = Inr rb'" by simp
  from add_response_Inr [OF this] AddResponse show ?thesis by auto
next
  case (ResponderId encoding responder_cert)
  assume "response_method u rb = Inr rb'"
  with ResponderId show ?thesis
    by (cases "rs_responder_id rb") (auto simp: responder_id_def split: if_splits)
next
  case (Certificates certs)
  assume "response_method u rb = Inr rb'"
  with Certificates show ?thesis
    by (cases "rs_certs rb") (auto simp: certificates_def split: if_splits)
next
  case (ResponseAddExtension extval crit)
  assume "response_method u rb = Inr rb'"
  with ResponseAddExtension show ?thesis
    by (auto simp: response_add_extension_def Let_def split: if_splits sum.splits)
qed

lemma add_response_not_revoked:
  "rs_response rb = None \<Longrightarrow> is_Certificate c \<Longrightarrow> is_Certificate i \<Longrightarrow>
   verify_algorithm a = Inr () \<Longrightarrow> nu = PyNone \<or> is_Datetime nu \<Longrightarrow>
   st = PyCertStatus GOOD \<or> st = PyCertStatus UNKNOWN \<Longrightarrow>
   add_response rb c i a st (PyDatetime tu0) nu PyNone PyNone =
     Inr \<lparr>rs_response = Some
            \<lparr>cert = c, issuer = i, algorithm = a, this_update = PyDatetime tu0,
             next_update = nu, cert_status = st, revocation_time = PyNone,
             revocation_reason = PyNone\<rparr>,
          rs_responder_id = rs_responder_id rb, rs_certs = rs_certs rb,
          rs_extensions = rs_extensions rb\<rparr>"
  by (elim disjE) (simp_all add: add_response_def SingleResponse_init_def)

lemma add_response_revoked:
  "rs_response rb = None \<Longrightarrow> is_Certificate c \<Longrightarrow> is_Certificate i \<Longrightarrow>
   verify_algorithm a = Inr () \<Longrightarrow> nu = PyNone \<or> is_Datetime nu \<Longrightarrow>
   convert_to_naive_utc_time t0 = Inr t \<Longrightarrow> \<not> datetime_less t EARLIEST_UTC_TIME \<Longrightarrow>
   rr = PyNone \<or> is_ReasonFlags rr \<Longrightarrow>
   add_response rb c i a (PyCertStatus REVOKED) (PyDatetime tu0) nu (PyDatetime t0) rr =
     Inr \<lparr>rs_response = Some
            \<lparr>cert = c, issuer = i, algorithm = a, this_update = PyDatetime tu0,
             next_update = nu, cert_status = PyCertStatus REVOKED,
             revocation_time = PyDatetime t, revocation_reason = rr\<rparr>,
          rs_responder_id = rs_responder_id rb, rs_certs = rs_certs rb,
          rs_extensions = rs_extensions rb\<rparr>"
  by (elim disjE) (simp_all add: add_response_def SingleResponse_init_def)

lemma add_certificate_call_refines:
  "add_certificate_call h self c i a =
     (case add_certificate (objects h self) c i a of
        Inl e \<Rightarrow> (h, Inl e) | Inr b \<Rightarrow> new_object h b)"
  by (cases "verify_algorithm a")
     (auto simp: add_certificate_call_def add_certificate_def)

lemma request_add_extension_call_refines:
  "request_add_extension_call h self extval crit =
     (case request_add_extension (objects h self) extval crit of
        Inl e \<Rightarrow> (h, Inl e) | Inr b \<Rightarrow> new_object h b)"
  by (simp add: request_add_extension_call_def request_add_extension_def Let_def
        split: sum.splits)

lemma add_response_call_refines:
  "add_response_call h self c i a st tu nu rt rr =
     (case add_response (objects h self) c i a st tu nu rt rr of
        Inl e \<Rightarrow> (h, Inl e) | Inr b \<Rightarrow> new_object h b)"
  by (simp add: add_response_call_def add_response_def split: sum.splits)

lemma responder_id_call_refines:
  "responder_id_call h self encoding responder_cert =
     (case responder_id (objects h self) encoding responder_cert of
        Inl e \<Rightarrow> (h, Inl e) | Inr b \<Rightarrow> new_object h b)"
  by (simp add: responder_id_call_def responder_id_def)

lemma certificates_call_refines:
  "certificates_call h self certs =
     (case certificates (objects h self) certs of
        Inl e \<Rightarrow> (h, Inl e) | Inr b \<Rightarrow> new_object h b)"
  by (simp add: certificates_call_def certificates_def)

lemma response_add_extension_call_refines:
  "response_add_extension_call h self extval crit =
     (case response_add_extension (objects h self) extval crit of
        Inl e \<Rightarrow> (h, Inl e) | Inr b \<Rightarrow> new_object h b)"
  by (simp add: response_add_extension_call_def response_add_extension_def Let_def
        split: sum.splits)

lemma request_call_refines:
  "request_call h self x =
     (case request_method x (objects h self) of
        Inl e \<Rightarrow> (h, Inl e) | Inr b \<Rightarrow> new_object h b)"
  by (cases x) (simp_all add: add_certificate_call_refines request_add_extension_call_refines)

lemma response_call_refines:
  "response_call h self u =
     (case response_method u (objects h self) of
        Inl e \<Rightarrow> (h, Inl e) | Inr b \<Rightarrow> new_object h b)"
  by (cases u)
     (simp_all add: add_response_call_refines responder_id_call_refines
        certificates_call_refines response_add_extension_call_refines)

lemma returning_frame:
  assumes live: "self < next_ref h"
    and call: "(case m (objects h self) of Inl e \<Rightarrow> (h, Inl e) | Inr b \<Rightarrow> new_object h b) = (h', r)"
  shows "(\<forall>p < next_ref h. objects h' p = objects h p) \<and> (isl r \<longrightarrow> h' = h)
    \<and> (\<not> isl r \<longrightarrow> projr r = next_ref h \<and> next_ref h' = Suc (next_ref h) \<and>
          m (objects h self) = Inr (objects h' (projr r)))
    \<and> self < next_ref h' \<and> objects h' self = objects h self"
proof (cases "m (objects h self)")
  case (Inl e)
  with call have "h' = h" "r = Inl e" by simp_all
  with live show ?thesis by simp
next
  case (Inr b)
  with call have "h' = \<lparr>objects = (objects h)(next_ref h := b), next_ref = Suc (next_ref h)\<rparr>"
    and "r = Inr (next_ref h)"
    by (simp_all add: new_object_def)
  with live Inr show ?thesis by simp
qed

lemma returning_outcome:
  "map_sum id
     (objects (fst (case m b0 of Inl e \<Rightarrow> (h, Inl e) | Inr b \<Rightarrow> new_object h b)))
     (snd (case m b0 of Inl e \<Rightarrow> (h, Inl e) | Inr b \<Rightarrow> new_object h b)) = m b0"
  by (cases "m b0") (simp_all add: new_object_def)

lemma request_call_frame:
  assumes live: "self < next_ref h" and call: "request_call h self x = (h', r)"
  shows "(\<forall>p < next_ref h. objects h' p = objects h p) \<and> (isl r \<longrightarrow> h' = h)
    \<and> (\<not> isl r \<longrightarrow> projr r = next_ref h \<and> next_ref h' = Suc (next_ref h) \<and>
          request_method x (objects h self) = Inr (objects h' (projr r)))
    \<and> self < next_ref h' \<and> objects h' self = objects h self"
proof -
  from call have "(case request_method x (objects h self) of
      Inl e \<Rightarrow> (h, Inl e) | Inr b \<Rightarrow> new_object h b) = (h', r)"
    by (simp only: request_call_refines)
  from returning_frame [where m = "request_method x" and self = self and h = h and h' = h' and r = r, OF live this]
  show ?thesis .
qed

lemma response_call_frame:
  assumes live: "self < next_ref h" and call: "response_call h self u = (h', r)"
  shows "(\<forall>p < next_ref h. objects h' p = objects h p) \<and> (isl r \<longrightarrow> h' = h)
    \<and> (\<not> isl r \<longrightarrow> projr r = next_ref h \<and> next_ref h' = Suc (next_ref h) \<and>
          response_method u (objects h self) = Inr (objects h' (projr r)))
    \<and> self < next_ref h' \<and> objects h' self = objects h self"
proof -
  from call have "(case response_method u (objects h self) of
      Inl e \<Rightarrow> (h, Inl e) | Inr b \<Rightarrow> new_object h b) = (h', r)"
    by (simp only: response_call_refines)
  from returning_frame [where m = "response_method u" and self = self and h = h and h' = h' and r = r, OF live this]
  show ?thesis .
qed

lemma request_call_outcome:
  "map_sum id (objects (fst (request_call h self y))) (snd (request_call h self y)) =
     request_method y (objects h self)"
  by (simp only: request_call_refines returning_outcome)

lemma response_call_outcome:
  "map_sum id (objects (fst (response_call h self v))) (snd (response_call h self v)) =
     response_method v (objects h self)"
  by (simp only: response_call_refines returning_outcome)

lemma add_certificate_accepts:
  "rq_request b = None \<Longrightarrow> is_Certificate c \<Longrightarrow> is_Certificate i \<Longrightarrow>
   a \<in> {PyHash SHA1, PyHash SHA224, PyHash SHA256, PyHash SHA384, PyHash SHA512} \<Longrightarrow>
   add_certificate b c i a = Inr \<lparr>rq_request = Some (c, i, a), rq_extensions = rq_extensions b\<rparr>"
  using verify_algorithm_Inr [of a] by (simp add: add_certificate_def)

lemma responder_id_accepts:
  "rs_responder_id rb = None \<Longrightarrow>
   responder_id rb (PyResponderEncoding enc) (PyCertificate rc) =
     Inr \<lparr>rs_response = rs_response rb,
          rs_responder_id = Some (PyCertificate rc, PyResponderEncoding enc),
          rs_certs = rs_certs rb, rs_extensions = rs_extensions rb\<rparr>"
  by (simp add: responder_id_def)

lemma certificates_accepts:
  "rs_certs rb = None \<Longrightarrow> cs \<noteq> [] \<Longrightarrow> list_all is_Certificate cs \<Longrightarrow>
   certificates rb cs =
     Inr \<lparr>rs_response = rs_response rb, rs_responder_id = rs_responder_id rb,
          rs_certs = Some cs, rs_extensions = rs_extensions rb\<rparr>"
  by (simp add: certificates_def)

lemma request_add_extension_accepts:
  "oid ev \<notin> ext_oid ` set (rq_extensions b) \<Longrightarrow>
   request_add_extension b (PyExtensionType ev) cr =
     Inr \<lparr>rq_request = rq_request b,
          rq_extensions = rq_extensions b @ [mk_Extension ev cr]\<rparr>"
  by (simp add: request_add_extension_def reject_duplicate_extension_eq ext_oid_mk_Extension
        Let_def)

lemma response_add_extension_accepts:
  "oid ev \<notin> ext_oid ` set (rs_extensions rb) \<Longrightarrow>
   response_add_extension rb (PyExtensionType ev) cr =
     Inr \<lparr>rs_response = rs_response rb, rs_responder_id = rs_responder_id rb,
          rs_certs = rs_certs rb,
          rs_extensions = rs_extensions rb @ [mk_Extension ev cr]\<rparr>"
  by (simp add: response_add_extension_def reject_duplicate_extension_eq ext_oid_mk_Extension
        Let_def)

section \<open>The closed set of hash algorithms\<close>

text \<open>
  C3. \<^verbatim>\<open>_verify_algorithm\<close> succeeds for exactly the five algorithms SHA1, SHA224,
  SHA256, SHA384 and SHA512, and raises the invalid-algorithm \<^verbatim>\<open>ValueError\<close> for every
  other Python value. At the two entry points that take a hash algorithm: no call of
  \<^verbatim>\<open>add_certificate\<close> or \<^verbatim>\<open>add_response\<close> with an algorithm outside the set returns
  a builder; where the algorithm check is reached (an empty slot, and for
  \<^verbatim>\<open>add_response\<close> two certificates) the error is the invalid-algorithm error; and
  \<^verbatim>\<open>add_certificate\<close> with two certificates and an algorithm of the set returns the
  filled builder. \<^verbatim>\<open>add_response\<close> accepts each of the five as well: on a builder
  without a response, with two certificates, an algorithm of the set and otherwise valid
  arguments (status GOOD or UNKNOWN without revocation fields, or REVOKED with a
  revocation time on or after the floor), it returns the builder that holds the single
  response.
\<close>

theorem hash_algorithm_closed_set:
  "(verify_algorithm a = Inr () \<longleftrightarrow>
      a \<in> {PyHash SHA1, PyHash SHA224, PyHash SHA256, PyHash SHA384, PyHash SHA512})
   \<and> (a \<notin> {PyHash SHA1, PyHash SHA224, PyHash SHA256, PyHash SHA384, PyHash SHA512} \<longrightarrow>
        verify_algorithm a =
          Inl (ValueError ''Algorithm must be SHA1, SHA224, SHA256, SHA384, or SHA512''))
   \<and> (add_certificate b c i a = Inr b' \<longrightarrow>
        a \<in> {PyHash SHA1, PyHash SHA224, PyHash SHA256, PyHash SHA384, PyHash SHA512})
   \<and> (add_response rb c i a st tu nu rt rr = Inr rb' \<longrightarrow>
        a \<in> {PyHash SHA1, PyHash SHA224, PyHash SHA256, PyHash SHA384, PyHash SHA512})
   \<and> (rq_request b = None \<and>
        a \<notin> {PyHash SHA1, PyHash SHA224, PyHash SHA256, PyHash SHA384, PyHash SHA512} \<longrightarrow>
        add_certificate b c i a =
          Inl (ValueError ''Algorithm must be SHA1, SHA224, SHA256, SHA384, or SHA512''))
   \<and> (rs_response rb = None \<and> is_Certificate c \<and> is_Certificate i \<and>
        a \<notin> {PyHash SHA1, PyHash SHA224, PyHash SHA256, PyHash SHA384, PyHash SHA512} \<longrightarrow>
        add_response rb c i a st tu nu rt rr =
          Inl (ValueError ''Algorithm must be SHA1, SHA224, SHA256, SHA384, or SHA512''))
   \<and> (rq_request b = None \<and> is_Certificate c \<and> is_Certificate i \<and>
        a \<in> {PyHash SHA1, PyHash SHA224, PyHash SHA256, PyHash SHA384, PyHash SHA512} \<longrightarrow>
        add_certificate b c i a =
          Inr \<lparr>rq_request = Some (c, i, a), rq_extensions = rq_extensions b\<rparr>)
   \<and> (rs_response rb = None \<and> is_Certificate c \<and> is_Certificate i \<and>
        a \<in> {PyHash SHA1, PyHash SHA224, PyHash SHA256, PyHash SHA384, PyHash SHA512} \<and> (nu = PyNone \<or> is_Datetime nu) \<and>
        st \<in> {PyCertStatus GOOD, PyCertStatus UNKNOWN} \<longrightarrow>
        add_response rb c i a st (PyDatetime tu') nu PyNone PyNone =
          Inr \<lparr>rs_response = Some
                 \<lparr>cert = c, issuer = i, algorithm = a, this_update = PyDatetime tu',
                  next_update = nu, cert_status = st, revocation_time = PyNone,
                  revocation_reason = PyNone\<rparr>,
               rs_responder_id = rs_responder_id rb, rs_certs = rs_certs rb,
               rs_extensions = rs_extensions rb\<rparr>)
   \<and> (rs_response rb = None \<and> is_Certificate c \<and> is_Certificate i \<and>
        a \<in> {PyHash SHA1, PyHash SHA224, PyHash SHA256, PyHash SHA384, PyHash SHA512} \<and> (nu = PyNone \<or> is_Datetime nu) \<and>
        convert_to_naive_utc_time t' = Inr t \<and> \<not> datetime_less t EARLIEST_UTC_TIME \<and>
        (rr = PyNone \<or> is_ReasonFlags rr) \<longrightarrow>
        add_response rb c i a (PyCertStatus REVOKED) (PyDatetime tu') nu (PyDatetime t') rr =
          Inr \<lparr>rs_response = Some
                 \<lparr>cert = c, issuer = i, algorithm = a, this_update = PyDatetime tu',
                  next_update = nu, cert_status = PyCertStatus REVOKED,
                  revocation_time = PyDatetime t, revocation_reason = rr\<rparr>,
               rs_responder_id = rs_responder_id rb, rs_certs = rs_certs rb,
               rs_extensions = rs_extensions rb\<rparr>)"
proof (intro conjI impI)
  show "(verify_algorithm a = Inr ()) =
     (a \<in> {PyHash SHA1, PyHash SHA224, PyHash SHA256, PyHash SHA384, PyHash SHA512})"
    by (rule verify_algorithm_Inr)
next
  assume "a \<notin> {PyHash SHA1, PyHash SHA224, PyHash SHA256, PyHash SHA384, PyHash SHA512}"
  then show "verify_algorithm a =
          Inl (ValueError ''Algorithm must be SHA1, SHA224, SHA256, SHA384, or SHA512'')"
    by (rule verify_algorithm_Inl)
next
  assume "add_certificate b c i a = Inr b'"
  then have "verify_algorithm a = Inr ()"
    by (simp add: add_certificate_def split: if_splits sum.splits)
  then show "a \<in> {PyHash SHA1, PyHash SHA224, PyHash SHA256, PyHash SHA384, PyHash SHA512}"
    by (simp only: verify_algorithm_Inr)
next
  assume "add_response rb c i a st tu nu rt rr = Inr rb'"
  then have "verify_algorithm a = Inr ()"
    by (simp add: add_response_def SingleResponse_init_def split: if_splits sum.splits)
  then show "a \<in> {PyHash SHA1, PyHash SHA224, PyHash SHA256, PyHash SHA384, PyHash SHA512}"
    by (simp only: verify_algorithm_Inr)
next
  assume "rq_request b = None \<and>
        a \<notin> {PyHash SHA1, PyHash SHA224, PyHash SHA256, PyHash SHA384, PyHash SHA512}"
  then show "add_certificate b c i a =
          Inl (ValueError ''Algorithm must be SHA1, SHA224, SHA256, SHA384, or SHA512'')"
    using verify_algorithm_Inl [of a] by (simp add: add_certificate_def)
next
  assume "rs_response rb = None \<and> is_Certificate c \<and> is_Certificate i \<and>
        a \<notin> {PyHash SHA1, PyHash SHA224, PyHash SHA256, PyHash SHA384, PyHash SHA512}"
  then show "add_response rb c i a st tu nu rt rr =
          Inl (ValueError ''Algorithm must be SHA1, SHA224, SHA256, SHA384, or SHA512'')"
    using verify_algorithm_Inl [of a] by (simp add: add_response_def SingleResponse_init_def)
next
  assume "rq_request b = None \<and> is_Certificate c \<and> is_Certificate i \<and>
        a \<in> {PyHash SHA1, PyHash SHA224, PyHash SHA256, PyHash SHA384, PyHash SHA512}"
  then show "add_certificate b c i a =
          Inr \<lparr>rq_request = Some (c, i, a), rq_extensions = rq_extensions b\<rparr>"
    using verify_algorithm_Inr [of a] by (simp add: add_certificate_def)
next
  assume H: "rs_response rb = None \<and> is_Certificate c \<and> is_Certificate i \<and>
        a \<in> {PyHash SHA1, PyHash SHA224, PyHash SHA256, PyHash SHA384, PyHash SHA512} \<and> (nu = PyNone \<or> is_Datetime nu) \<and>
        st \<in> {PyCertStatus GOOD, PyCertStatus UNKNOWN}"
  then have "verify_algorithm a = Inr ()"
    by (simp only: verify_algorithm_Inr)
  with H show "add_response rb c i a st (PyDatetime tu') nu PyNone PyNone =
          Inr \<lparr>rs_response = Some
                 \<lparr>cert = c, issuer = i, algorithm = a, this_update = PyDatetime tu',
                  next_update = nu, cert_status = st, revocation_time = PyNone,
                  revocation_reason = PyNone\<rparr>,
               rs_responder_id = rs_responder_id rb, rs_certs = rs_certs rb,
               rs_extensions = rs_extensions rb\<rparr>"
    using add_response_not_revoked [of rb c i a nu st tu'] by simp
next
  assume H: "rs_response rb = None \<and> is_Certificate c \<and> is_Certificate i \<and>
        a \<in> {PyHash SHA1, PyHash SHA224, PyHash SHA256, PyHash SHA384, PyHash SHA512} \<and> (nu = PyNone \<or> is_Datetime nu) \<and>
        convert_to_naive_utc_time t' = Inr t \<and> \<not> datetime_less t EARLIEST_UTC_TIME \<and>
        (rr = PyNone \<or> is_ReasonFlags rr)"
  then have "verify_algorithm a = Inr ()"
    by (simp only: verify_algorithm_Inr)
  with H show "add_response rb c i a (PyCertStatus REVOKED) (PyDatetime tu') nu (PyDatetime t') rr =
          Inr \<lparr>rs_response = Some
                 \<lparr>cert = c, issuer = i, algorithm = a, this_update = PyDatetime tu',
                  next_update = nu, cert_status = PyCertStatus REVOKED,
                  revocation_time = PyDatetime t, revocation_reason = rr\<rparr>,
               rs_responder_id = rs_responder_id rb, rs_certs = rs_certs rb,
               rs_extensions = rs_extensions rb\<rparr>"
    using add_response_revoked [of rb c i a nu t' t rr tu'] by simp
qed

theorem hash_algorithm_closed_set_witness:
  "(verify_algorithm (PyHash SHA256) = Inr ()
   \<and> verify_algorithm (PyHash MD5) =
       Inl (ValueError ''Algorithm must be SHA1, SHA224, SHA256, SHA384, or SHA512'')
   \<and> add_certificate new_OCSPRequestBuilder (PyCertificate (Certificate 1))
       (PyCertificate (Certificate 2)) (PyHash MD5) =
       Inl (ValueError ''Algorithm must be SHA1, SHA224, SHA256, SHA384, or SHA512'')
   \<and> add_response new_OCSPResponseBuilder (PyCertificate (Certificate 1))
       (PyCertificate (Certificate 2)) (PyHash MD5) (PyCertStatus GOOD)
       (PyDatetime (mk_datetime 2020 1 1 0 0 0 0 None)) PyNone PyNone PyNone =
       Inl (ValueError ''Algorithm must be SHA1, SHA224, SHA256, SHA384, or SHA512'')
   \<and> add_certificate new_OCSPRequestBuilder (PyCertificate (Certificate 1))
       (PyCertificate (Certificate 2)) (PyHash SHA256) =
       Inr \<lparr>rq_request = Some (PyCertificate (Certificate 1), PyCertificate (Certificate 2),
              PyHash SHA256), rq_extensions = []\<rparr>)
   \<and> add_response new_OCSPResponseBuilder (PyCertificate (Certificate 1))
       (PyCertificate (Certificate 2)) (PyHash SHA384) (PyCertStatus GOOD)
       (PyDatetime (mk_datetime 2020 1 1 0 0 0 0 None)) PyNone PyNone PyNone =
       Inr \<lparr>rs_response = Some
              \<lparr>cert = PyCertificate (Certificate 1), issuer = PyCertificate (Certificate 2),
               algorithm = PyHash SHA384,
               this_update = PyDatetime (mk_datetime 2020 1 1 0 0 0 0 None),
               next_update = PyNone, cert_status = PyCertStatus GOOD,
               revocation_time = PyNone, revocation_reason = PyNone\<rparr>,
            rs_responder_id = None, rs_certs = None, rs_extensions = []\<rparr>"
proof -
  have first: "verify_algorithm (PyHash SHA256) = Inr ()
   \<and> verify_algorithm (PyHash MD5) =
       Inl (ValueError ''Algorithm must be SHA1, SHA224, SHA256, SHA384, or SHA512'')
   \<and> add_certificate new_OCSPRequestBuilder (PyCertificate (Certificate 1))
       (PyCertificate (Certificate 2)) (PyHash MD5) =
       Inl (ValueError ''Algorithm must be SHA1, SHA224, SHA256, SHA384, or SHA512'')
   \<and> add_response new_OCSPResponseBuilder (PyCertificate (Certificate 1))
       (PyCertificate (Certificate 2)) (PyHash MD5) (PyCertStatus GOOD)
       (PyDatetime (mk_datetime 2020 1 1 0 0 0 0 None)) PyNone PyNone PyNone =
       Inl (ValueError ''Algorithm must be SHA1, SHA224, SHA256, SHA384, or SHA512'')
   \<and> add_certificate new_OCSPRequestBuilder (PyCertificate (Certificate 1))
       (PyCertificate (Certificate 2)) (PyHash SHA256) =
       Inr \<lparr>rq_request = Some (PyCertificate (Certificate 1), PyCertificate (Certificate 2),
              PyHash SHA256), rq_extensions = []\<rparr>"
    using hash_algorithm_closed_set
        [where a = "PyHash MD5" and b = new_OCSPRequestBuilder and rb = new_OCSPResponseBuilder
           and c = "PyCertificate (Certificate 1)" and i = "PyCertificate (Certificate 2)"
           and st = "PyCertStatus GOOD" and tu = "PyDatetime (mk_datetime 2020 1 1 0 0 0 0 None)"
           and nu = PyNone and rt = PyNone and rr = PyNone]
      hash_algorithm_closed_set
        [where a = "PyHash SHA256" and b = new_OCSPRequestBuilder
           and c = "PyCertificate (Certificate 1)" and i = "PyCertificate (Certificate 2)"]
    by (simp add: new_OCSPRequestBuilder_def new_OCSPResponseBuilder_def)
  have accepted: "add_response new_OCSPResponseBuilder (PyCertificate (Certificate 1))
       (PyCertificate (Certificate 2)) (PyHash SHA384) (PyCertStatus GOOD)
       (PyDatetime (mk_datetime 2020 1 1 0 0 0 0 None)) PyNone PyNone PyNone =
       Inr \<lparr>rs_response = Some
              \<lparr>cert = PyCertificate (Certificate 1), issuer = PyCertificate (Certificate 2),
               algorithm = PyHash SHA384,
               this_update = PyDatetime (mk_datetime 2020 1 1 0 0 0 0 None),
               next_update = PyNone, cert_status = PyCertStatus GOOD,
               revocation_time = PyNone, revocation_reason = PyNone\<rparr>,
            rs_responder_id = None, rs_certs = None, rs_extensions = []\<rparr>"
    using hash_algorithm_closed_set
      [where a = "PyHash SHA384" and rb = new_OCSPResponseBuilder
         and c = "PyCertificate (Certificate 1)" and i = "PyCertificate (Certificate 2)"
         and st = "PyCertStatus GOOD" and tu' = "mk_datetime 2020 1 1 0 0 0 0 None"
         and nu = PyNone]
    by (simp add: new_OCSPResponseBuilder_def)
  from first accepted show ?thesis by (rule conjI)
qed

section \<open>Duplicate extensions\<close>

text \<open>
  C5. On either builder, \<^verbatim>\<open>add_extension\<close> of an extension whose identifier is already
  in the builder's list raises \<^verbatim>\<open>ValueError\<close>, whatever its criticality flag and
  content; in particular a second extension with the identifier of one just added
  fails. A chain of \<^verbatim>\<open>add_extension\<close> calls whose identifiers are pairwise distinct,
  and distinct from those already present, succeeds, and the resulting list is the old
  list followed by the new extensions in the order of the calls.
\<close>

theorem duplicate_extension_rejected:
  "(oid ev \<in> ext_oid ` set (rq_extensions b) \<longrightarrow>
      request_add_extension b (PyExtensionType ev) cr =
        Inl (ValueError ''This extension has already been set.''))
   \<and> (oid ev \<in> ext_oid ` set (rs_extensions rb) \<longrightarrow>
      response_add_extension rb (PyExtensionType ev) cr =
        Inl (ValueError ''This extension has already been set.''))
   \<and> (request_add_extension b (PyExtensionType ev) cr = Inr b' \<and> oid ev2 = oid ev \<longrightarrow>
      request_add_extension b' (PyExtensionType ev2) cr2 =
        Inl (ValueError ''This extension has already been set.''))
   \<and> (response_add_extension rb (PyExtensionType ev) cr = Inr rb' \<and> oid ev2 = oid ev \<longrightarrow>
      response_add_extension rb' (PyExtensionType ev2) cr2 =
        Inl (ValueError ''This extension has already been set.''))
   \<and> (distinct (map (\<lambda>x. oid (fst x)) evs) \<and>
       (\<lambda>x. oid (fst x)) ` set evs \<inter> ext_oid ` set (rq_extensions b) = {} \<longrightarrow>
      chain request_method b
          (map (\<lambda>(ev, cr). RequestAddExtension (PyExtensionType ev) cr) evs) =
        Inr (b\<lparr>rq_extensions := rq_extensions b @ map (\<lambda>(ev, cr). mk_Extension ev cr) evs\<rparr>))
   \<and> (distinct (map (\<lambda>x. oid (fst x)) evs) \<and>
       (\<lambda>x. oid (fst x)) ` set evs \<inter> ext_oid ` set (rs_extensions rb) = {} \<longrightarrow>
      chain response_method rb
          (map (\<lambda>(ev, cr). ResponseAddExtension (PyExtensionType ev) cr) evs) =
        Inr (rb\<lparr>rs_extensions := rs_extensions rb @ map (\<lambda>(ev, cr). mk_Extension ev cr) evs\<rparr>))"
proof (intro conjI impI)
  assume "oid ev \<in> ext_oid ` set (rq_extensions b)"
  then show "request_add_extension b (PyExtensionType ev) cr =
        Inl (ValueError ''This extension has already been set.'')"
    by (simp add: request_add_extension_eq)
next
  assume "oid ev \<in> ext_oid ` set (rs_extensions rb)"
  then show "response_add_extension rb (PyExtensionType ev) cr =
        Inl (ValueError ''This extension has already been set.'')"
    by (simp add: response_add_extension_eq)
next
  assume a: "request_add_extension b (PyExtensionType ev) cr = Inr b' \<and> oid ev2 = oid ev"
  then have "b' = b\<lparr>rq_extensions := rq_extensions b @ [mk_Extension ev cr]\<rparr>"
    by (simp add: request_add_extension_eq split: if_splits)
  with a have "oid ev2 \<in> ext_oid ` set (rq_extensions b')"
    by (simp add: ext_oid_mk_Extension)
  then show "request_add_extension b' (PyExtensionType ev2) cr2 =
        Inl (ValueError ''This extension has already been set.'')"
    by (simp add: request_add_extension_eq)
next
  assume a: "response_add_extension rb (PyExtensionType ev) cr = Inr rb' \<and> oid ev2 = oid ev"
  then have "rb' = rb\<lparr>rs_extensions := rs_extensions rb @ [mk_Extension ev cr]\<rparr>"
    by (simp add: response_add_extension_eq split: if_splits)
  with a have "oid ev2 \<in> ext_oid ` set (rs_extensions rb')"
    by (simp add: ext_oid_mk_Extension)
  then show "response_add_extension rb' (PyExtensionType ev2) cr2 =
        Inl (ValueError ''This extension has already been set.'')"
    by (simp add: response_add_extension_eq)
next
  assume "distinct (map (\<lambda>x. oid (fst x)) evs) \<and>
       (\<lambda>x. oid (fst x)) ` set evs \<inter> ext_oid ` set (rq_extensions b) = {}"
  then show "chain request_method b
          (map (\<lambda>(ev, cr). RequestAddExtension (PyExtensionType ev) cr) evs) =
        Inr (b\<lparr>rq_extensions := rq_extensions b @ map (\<lambda>(ev, cr). mk_Extension ev cr) evs\<rparr>)"
    using chain_request_add_extension [of evs b] by blast
next
  assume "distinct (map (\<lambda>x. oid (fst x)) evs) \<and>
       (\<lambda>x. oid (fst x)) ` set evs \<inter> ext_oid ` set (rs_extensions rb) = {}"
  then show "chain response_method rb
          (map (\<lambda>(ev, cr). ResponseAddExtension (PyExtensionType ev) cr) evs) =
        Inr (rb\<lparr>rs_extensions := rs_extensions rb @ map (\<lambda>(ev, cr). mk_Extension ev cr) evs\<rparr>)"
    using chain_response_add_extension [of evs rb] by blast
qed

theorem duplicate_extension_rejected_witness:
  "request_add_extension
      \<lparr>rq_request = None,
       rq_extensions = [mk_Extension \<lparr>oid = ''1.3.6.1.5.5.7.48.1.2'', content = ''a''\<rparr> False]\<rparr>
      (PyExtensionType \<lparr>oid = ''1.3.6.1.5.5.7.48.1.2'', content = ''b''\<rparr>) True =
     Inl (ValueError ''This extension has already been set.'')
   \<and> response_add_extension
      \<lparr>rs_response = None, rs_responder_id = None, rs_certs = None,
       rs_extensions = [mk_Extension \<lparr>oid = ''1.3.6.1.5.5.7.48.1.2'', content = ''a''\<rparr> False]\<rparr>
      (PyExtensionType \<lparr>oid = ''1.3.6.1.5.5.7.48.1.2'', content = ''b''\<rparr>) True =
     Inl (ValueError ''This extension has already been set.'')
   \<and> chain request_method new_OCSPRequestBuilder
      [RequestAddExtension (PyExtensionType \<lparr>oid = ''1.3.6.1.5.5.7.48.1.2'', content = ''a''\<rparr>) False,
       RequestAddExtension (PyExtensionType \<lparr>oid = ''1.3.6.1.5.5.7.48.1.5'', content = ''''\<rparr>) True] =
     Inr \<lparr>rq_request = None,
          rq_extensions =
            [mk_Extension \<lparr>oid = ''1.3.6.1.5.5.7.48.1.2'', content = ''a''\<rparr> False,
             mk_Extension \<lparr>oid = ''1.3.6.1.5.5.7.48.1.5'', content = ''''\<rparr> True]\<rparr>
   \<and> chain response_method new_OCSPResponseBuilder
      [ResponseAddExtension (PyExtensionType \<lparr>oid = ''1.3.6.1.5.5.7.48.1.2'', content = ''a''\<rparr>) False,
       ResponseAddExtension (PyExtensionType \<lparr>oid = ''1.3.6.1.5.5.7.48.1.5'', content = ''''\<rparr>) True] =
     Inr \<lparr>rs_response = None, rs_responder_id = None, rs_certs = None,
          rs_extensions =
            [mk_Extension \<lparr>oid = ''1.3.6.1.5.5.7.48.1.2'', content = ''a''\<rparr> False,
             mk_Extension \<lparr>oid = ''1.3.6.1.5.5.7.48.1.5'', content = ''''\<rparr> True]\<rparr>"
  using duplicate_extension_rejected
    [where ev = "\<lparr>oid = ''1.3.6.1.5.5.7.48.1.2'', content = ''b''\<rparr>" and cr = True
       and b = "\<lparr>rq_request = None,
         rq_extensions = [mk_Extension \<lparr>oid = ''1.3.6.1.5.5.7.48.1.2'', content = ''a''\<rparr> False]\<rparr>"
       and rb = "\<lparr>rs_response = None, rs_responder_id = None, rs_certs = None,
         rs_extensions = [mk_Extension \<lparr>oid = ''1.3.6.1.5.5.7.48.1.2'', content = ''a''\<rparr> False]\<rparr>"
       and evs = "[]"]
    duplicate_extension_rejected
    [where b = new_OCSPRequestBuilder and rb = new_OCSPResponseBuilder
       and ev = "\<lparr>oid = ''1.3.6.1.5.5.7.48.1.2'', content = ''b''\<rparr>"
       and evs = "[(\<lparr>oid = ''1.3.6.1.5.5.7.48.1.2'', content = ''a''\<rparr>, False),
                   (\<lparr>oid = ''1.3.6.1.5.5.7.48.1.5'', content = ''''\<rparr>, True)]"]
  by (simp add: new_OCSPRequestBuilder_def new_OCSPResponseBuilder_def ext_oid_mk_Extension)

section \<open>The request builder holds one certificate\<close>

text \<open>
  C4, as the claim states it, fails: a second \<^verbatim>\<open>add_certificate\<close> call does not fail
  "regardless of whether the first call succeeded". A first call that raises (here for
  MD5) returns no builder and leaves the receiver as it was, and a second call on it
  with valid arguments returns a builder.
\<close>

theorem second_add_certificate_counterexample:
  "add_certificate new_OCSPRequestBuilder (PyCertificate (Certificate 1))
      (PyCertificate (Certificate 2)) (PyHash MD5) =
     Inl (ValueError ''Algorithm must be SHA1, SHA224, SHA256, SHA384, or SHA512'')
   \<and> add_certificate new_OCSPRequestBuilder (PyCertificate (Certificate 1))
      (PyCertificate (Certificate 2)) (PyHash SHA256) =
     Inr \<lparr>rq_request = Some (PyCertificate (Certificate 1), PyCertificate (Certificate 2),
            PyHash SHA256), rq_extensions = []\<rparr>"
  by (simp add: add_certificate_def new_OCSPRequestBuilder_def verify_algorithm_def
        isinstance_hashes_def ALLOWED_HASHES_def)

text \<open>
  C4, amended. \<^verbatim>\<open>build\<close> on a builder with an empty certificate slot raises
  \<^verbatim>\<open>ValueError\<close>. When \<^verbatim>\<open>add_certificate\<close> returns a builder, the receiver's slot was
  empty, \<^verbatim>\<open>build\<close> on the returned builder passes its check and hands the builder to
  the backend, and every further \<^verbatim>\<open>add_certificate\<close> on the returned builder raises
  the only-one-certificate \<^verbatim>\<open>ValueError\<close>, whatever its arguments. After a first call
  that raised on an empty builder, a call with two certificates and an allowed algorithm
  on the same builder returns the filled builder.
\<close>

theorem request_builder_one_certificate:
  "(rq_request b = None \<longrightarrow>
      build b = Inl (ValueError ''You must add a certificate before building''))
   \<and> (add_certificate b c i a = Inr b' \<longrightarrow>
      rq_request b = None
      \<and> build b' = Inr (create_ocsp_request b')
      \<and> add_certificate b' c' i' a' =
          Inl (ValueError ''Only one certificate can be added to a request''))
   \<and> (rq_request b = None \<and> isl (add_certificate b c i a) \<and> is_Certificate c' \<and>
       is_Certificate i' \<and> verify_algorithm a' = Inr () \<longrightarrow>
      add_certificate b c' i' a' =
        Inr \<lparr>rq_request = Some (c', i', a'), rq_extensions = rq_extensions b\<rparr>)"
proof (intro conjI impI)
  assume "rq_request b = None"
  then show "build b = Inl (ValueError ''You must add a certificate before building'')"
    by (simp add: build_def)
next
  assume ok: "add_certificate b c i a = Inr b'"
  then show "rq_request b = None"
    by (cases "rq_request b") (simp_all add: add_certificate_def)
  from ok have b': "b' = \<lparr>rq_request = Some (c, i, a), rq_extensions = rq_extensions b\<rparr>"
    by (simp add: add_certificate_def split: if_splits sum.splits)
  show "build b' = Inr (create_ocsp_request b')"
    by (simp add: b' build_def)
  show "add_certificate b' c' i' a' =
          Inl (ValueError ''Only one certificate can be added to a request'')"
    by (simp add: b' add_certificate_def)
next
  assume "rq_request b = None \<and> isl (add_certificate b c i a) \<and> is_Certificate c' \<and>
       is_Certificate i' \<and> verify_algorithm a' = Inr ()"
  then show "add_certificate b c' i' a' =
        Inr \<lparr>rq_request = Some (c', i', a'), rq_extensions = rq_extensions b\<rparr>"
    by (simp add: add_certificate_def)
qed

theorem request_builder_one_certificate_witness:
  "build new_OCSPRequestBuilder = Inl (ValueError ''You must add a certificate before building'')
   \<and> build \<lparr>rq_request = Some (PyCertificate (Certificate 1), PyCertificate (Certificate 2),
              PyHash SHA256), rq_extensions = []\<rparr> =
       Inr (create_ocsp_request
         \<lparr>rq_request = Some (PyCertificate (Certificate 1), PyCertificate (Certificate 2),
              PyHash SHA256), rq_extensions = []\<rparr>)
   \<and> add_certificate
       \<lparr>rq_request = Some (PyCertificate (Certificate 1), PyCertificate (Certificate 2),
              PyHash SHA256), rq_extensions = []\<rparr>
       (PyCertificate (Certificate 3)) (PyCertificate (Certificate 2)) (PyHash SHA1) =
       Inl (ValueError ''Only one certificate can be added to a request'')
   \<and> add_certificate new_OCSPRequestBuilder (PyCertificate (Certificate 3))
       (PyCertificate (Certificate 2)) (PyHash SHA1) =
       Inr \<lparr>rq_request = Some (PyCertificate (Certificate 3), PyCertificate (Certificate 2),
              PyHash SHA1), rq_extensions = []\<rparr>"
  using request_builder_one_certificate
      [where b = new_OCSPRequestBuilder and c = "PyCertificate (Certificate 1)"
         and i = "PyCertificate (Certificate 2)" and a = "PyHash SHA256"
         and b' = "\<lparr>rq_request = Some (PyCertificate (Certificate 1),
              PyCertificate (Certificate 2), PyHash SHA256), rq_extensions = []\<rparr>"
         and c' = "PyCertificate (Certificate 3)" and i' = "PyCertificate (Certificate 2)"
         and a' = "PyHash SHA1"]
    request_builder_one_certificate
      [where b = new_OCSPRequestBuilder and c = "PyCertificate (Certificate 1)"
         and i = "PyCertificate (Certificate 2)" and a = "PyHash MD5"
         and c' = "PyCertificate (Certificate 3)" and i' = "PyCertificate (Certificate 2)"
         and a' = "PyHash SHA1"]
  by (simp add: new_OCSPRequestBuilder_def add_certificate_def verify_algorithm_def
        isinstance_hashes_def ALLOWED_HASHES_def)

section \<open>The certificate chain of a response\<close>

text \<open>
  C6, as the claim states it, fails: a non-empty collection on a builder whose chain is
  unset does not always succeed. The method checks every member with
  \<^verbatim>\<open>isinstance(x, x509.Certificate)\<close> and raises \<^verbatim>\<open>TypeError\<close> for a collection with
  a member that is not a certificate.
\<close>

theorem certificates_nonempty_counterexample:
  "certificates new_OCSPResponseBuilder
      [PyCertificate (Certificate 1), PyStr ''not a certificate''] =
     Inl (TypeError ''certs must be a list of Certificates'')"
  by (simp add: certificates_def new_OCSPResponseBuilder_def)

text \<open>
  C6, amended. \<^verbatim>\<open>certificates\<close> raises \<^verbatim>\<open>ValueError\<close> when the chain is already set,
  and when it is unset and the collection is empty; with the chain unset and a non-empty
  collection of certificates it returns the builder with exactly that list stored, in
  the order given; with the chain unset and a non-empty collection that has a member
  that is not a certificate it raises \<^verbatim>\<open>TypeError\<close>. A new builder has no chain
  (\<open>None\<close>, not the empty list), and no chain of calls without \<^verbatim>\<open>certificates\<close> changes
  the chain of the builder it starts from.
\<close>

theorem certificates_once_and_nonempty:
  "(rs_certs rb \<noteq> None \<longrightarrow>
      certificates rb cs = Inl (ValueError ''certificates may only be set once''))
   \<and> (rs_certs rb = None \<and> cs = [] \<longrightarrow>
      certificates rb cs = Inl (ValueError ''certs must not be an empty list''))
   \<and> (rs_certs rb = None \<and> cs \<noteq> [] \<and> list_all is_Certificate cs \<longrightarrow>
      certificates rb cs = Inr (rb\<lparr>rs_certs := Some cs\<rparr>))
   \<and> (rs_certs rb = None \<and> cs \<noteq> [] \<and> \<not> list_all is_Certificate cs \<longrightarrow>
      certificates rb cs = Inl (TypeError ''certs must be a list of Certificates''))
   \<and> rs_certs new_OCSPResponseBuilder = None
   \<and> (list_all (\<lambda>x. \<not> is_Certificates x) ops \<and> chain response_method rb ops = Inr rb' \<longrightarrow>
      rs_certs rb' = rs_certs rb)"
proof (intro conjI impI)
  assume "list_all (\<lambda>x. \<not> is_Certificates x) ops \<and> chain response_method rb ops = Inr rb'"
  then show "rs_certs rb' = rs_certs rb"
    using chain_keeps_certs [of ops rb rb'] by blast
qed (simp_all add: certificates_def new_OCSPResponseBuilder_def)

theorem certificates_once_and_nonempty_witness:
  "certificates new_OCSPResponseBuilder [] =
     Inl (ValueError ''certs must not be an empty list'')
   \<and> certificates new_OCSPResponseBuilder
       [PyCertificate (Certificate 1), PyCertificate (Certificate 2)] =
     Inr \<lparr>rs_response = None, rs_responder_id = None,
          rs_certs = Some [PyCertificate (Certificate 1), PyCertificate (Certificate 2)],
          rs_extensions = []\<rparr>
   \<and> certificates
       \<lparr>rs_response = None, rs_responder_id = None,
        rs_certs = Some [PyCertificate (Certificate 1), PyCertificate (Certificate 2)],
        rs_extensions = []\<rparr> [PyCertificate (Certificate 3)] =
     Inl (ValueError ''certificates may only be set once'')
   \<and> certificates new_OCSPResponseBuilder [PyCertificate (Certificate 1), PyInt 5] =
     Inl (TypeError ''certs must be a list of Certificates'')
   \<and> rs_certs \<lparr>rs_response = None,
        rs_responder_id = Some (PyCertificate (Certificate 2), PyResponderEncoding NAME),
        rs_certs = None, rs_extensions = []\<rparr> = None"
proof -
  have unset: "rs_certs new_OCSPResponseBuilder = None"
    by (simp add: new_OCSPResponseBuilder_def)
  have e: "certificates new_OCSPResponseBuilder [] =
     Inl (ValueError ''certs must not be an empty list'')"
    using certificates_once_and_nonempty [where rb = new_OCSPResponseBuilder and cs = "[]"] unset
    by simp
  have ok: "certificates new_OCSPResponseBuilder
       [PyCertificate (Certificate 1), PyCertificate (Certificate 2)] =
     Inr (new_OCSPResponseBuilder
       \<lparr>rs_certs := Some [PyCertificate (Certificate 1), PyCertificate (Certificate 2)]\<rparr>)"
    using certificates_once_and_nonempty [where rb = new_OCSPResponseBuilder
         and cs = "[PyCertificate (Certificate 1), PyCertificate (Certificate 2)]"] unset
    by simp
  have twice: "certificates
       \<lparr>rs_response = None, rs_responder_id = None,
        rs_certs = Some [PyCertificate (Certificate 1), PyCertificate (Certificate 2)],
        rs_extensions = []\<rparr> [PyCertificate (Certificate 3)] =
     Inl (ValueError ''certificates may only be set once'')"
    using certificates_once_and_nonempty
      [where rb = "\<lparr>rs_response = None, rs_responder_id = None,
           rs_certs = Some [PyCertificate (Certificate 1), PyCertificate (Certificate 2)],
           rs_extensions = []\<rparr>"
         and cs = "[PyCertificate (Certificate 3)]"]
    by simp
  have ty: "certificates new_OCSPResponseBuilder [PyCertificate (Certificate 1), PyInt 5] =
     Inl (TypeError ''certs must be a list of Certificates'')"
    using certificates_once_and_nonempty [where rb = new_OCSPResponseBuilder
         and cs = "[PyCertificate (Certificate 1), PyInt 5]"] unset
    by simp
  have step: "chain response_method new_OCSPResponseBuilder
        [ResponderId (PyResponderEncoding NAME) (PyCertificate (Certificate 2))] =
      Inr \<lparr>rs_response = None,
        rs_responder_id = Some (PyCertificate (Certificate 2), PyResponderEncoding NAME),
        rs_certs = None, rs_extensions = []\<rparr>"
    by (simp add: new_OCSPResponseBuilder_def responder_id_def)
  have kept: "rs_certs \<lparr>rs_response = None,
        rs_responder_id = Some (PyCertificate (Certificate 2), PyResponderEncoding NAME),
        rs_certs = None, rs_extensions = []\<rparr> = rs_certs new_OCSPResponseBuilder"
    using certificates_once_and_nonempty
      [where rb = new_OCSPResponseBuilder
         and ops = "[ResponderId (PyResponderEncoding NAME) (PyCertificate (Certificate 2))]"
         and rb' = "\<lparr>rs_response = None,
           rs_responder_id = Some (PyCertificate (Certificate 2), PyResponderEncoding NAME),
           rs_certs = None, rs_extensions = []\<rparr>"] step
    by simp
  from e ok twice ty kept unset show ?thesis
    by (simp add: new_OCSPResponseBuilder_def)
qed

section \<open>Signing\<close>

text \<open>
  C7. \<^verbatim>\<open>sign\<close> raises \<^verbatim>\<open>ValueError\<close> when no response has been added, and when a
  response is there but no responder id; with both set it hands the backend the call
  \<^verbatim>\<open>create_ocsp_response(SUCCESSFUL, self, private_key, algorithm)\<close>. No other method
  asks the backend for a SUCCESSFUL response: \<^verbatim>\<open>build_unsuccessful\<close> never does, and
  \<^verbatim>\<open>build\<close> of the request builder asks for no response at all.
\<close>

theorem sign_needs_response_and_responder:
  "(rs_response rb = None \<longrightarrow>
      sign rb k a = Inl (ValueError ''You must add a response before signing''))
   \<and> (rs_response rb \<noteq> None \<and> rs_responder_id rb = None \<longrightarrow>
      sign rb k a = Inl (ValueError ''You must add a responder_id before signing''))
   \<and> (rs_response rb \<noteq> None \<and> rs_responder_id rb \<noteq> None \<longrightarrow>
      sign rb k a = Inr (create_ocsp_response SUCCESSFUL (Some rb) k a))
   \<and> build_unsuccessful s \<noteq> Inr (create_ocsp_response SUCCESSFUL ob k' a')
   \<and> build b \<noteq> Inr (create_ocsp_response st ob k' a')"
  by (cases s) (auto simp: sign_def build_unsuccessful_def build_def)

theorem sign_needs_response_and_responder_witness:
  "sign new_OCSPResponseBuilder (PyPrivateKey 1) (PyHash SHA256) =
     Inl (ValueError ''You must add a response before signing'')
   \<and> sign \<lparr>rs_response = Some \<lparr>cert = PyCertificate (Certificate 1),
          issuer = PyCertificate (Certificate 2), algorithm = PyHash SHA1,
          this_update = PyDatetime (mk_datetime 2020 1 1 0 0 0 0 None), next_update = PyNone,
          cert_status = PyCertStatus GOOD, revocation_time = PyNone,
          revocation_reason = PyNone\<rparr>,
        rs_responder_id = None, rs_certs = None, rs_extensions = []\<rparr>
       (PyPrivateKey 1) (PyHash SHA256) =
     Inl (ValueError ''You must add a responder_id before signing'')
   \<and> sign \<lparr>rs_response = Some \<lparr>cert = PyCertificate (Certificate 1),
          issuer = PyCertificate (Certificate 2), algorithm = PyHash SHA1,
          this_update = PyDatetime (mk_datetime 2020 1 1 0 0 0 0 None), next_update = PyNone,
          cert_status = PyCertStatus GOOD, revocation_time = PyNone,
          revocation_reason = PyNone\<rparr>,
        rs_responder_id = Some (PyCertificate (Certificate 2), PyResponderEncoding HASH),
        rs_certs = None, rs_extensions = []\<rparr>
       (PyPrivateKey 1) (PyHash SHA256) =
     Inr (create_ocsp_response SUCCESSFUL
       (Some \<lparr>rs_response = Some \<lparr>cert = PyCertificate (Certificate 1),
          issuer = PyCertificate (Certificate 2), algorithm = PyHash SHA1,
          this_update = PyDatetime (mk_datetime 2020 1 1 0 0 0 0 None), next_update = PyNone,
          cert_status = PyCertStatus GOOD, revocation_time = PyNone,
          revocation_reason = PyNone\<rparr>,
        rs_responder_id = Some (PyCertificate (Certificate 2), PyResponderEncoding HASH),
        rs_certs = None, rs_extensions = []\<rparr>)
       (PyPrivateKey 1) (PyHash SHA256))"
  using sign_needs_response_and_responder
      [where rb = new_OCSPResponseBuilder and k = "PyPrivateKey 1" and a = "PyHash SHA256"]
    sign_needs_response_and_responder
      [where rb = "\<lparr>rs_response = Some \<lparr>cert = PyCertificate (Certificate 1),
          issuer = PyCertificate (Certificate 2), algorithm = PyHash SHA1,
          this_update = PyDatetime (mk_datetime 2020 1 1 0 0 0 0 None), next_update = PyNone,
          cert_status = PyCertStatus GOOD, revocation_time = PyNone,
          revocation_reason = PyNone\<rparr>,
        rs_responder_id = None, rs_certs = None, rs_extensions = []\<rparr>"
        and k = "PyPrivateKey 1" and a = "PyHash SHA256"]
    sign_needs_response_and_responder
      [where rb = "\<lparr>rs_response = Some \<lparr>cert = PyCertificate (Certificate 1),
          issuer = PyCertificate (Certificate 2), algorithm = PyHash SHA1,
          this_update = PyDatetime (mk_datetime 2020 1 1 0 0 0 0 None), next_update = PyNone,
          cert_status = PyCertStatus GOOD, revocation_time = PyNone,
          revocation_reason = PyNone\<rparr>,
        rs_responder_id = Some (PyCertificate (Certificate 2), PyResponderEncoding HASH),
        rs_certs = None, rs_extensions = []\<rparr>"
        and k = "PyPrivateKey 1" and a = "PyHash SHA256"]
  by (simp add: new_OCSPResponseBuilder_def)

section \<open>Unsuccessful responses\<close>

text \<open>
  C8. \<^verbatim>\<open>build_unsuccessful\<close> is a class method and reads no builder. It raises if and
  only if its argument is not a member of \<^verbatim>\<open>OCSPResponseStatus\<close> (\<^verbatim>\<open>TypeError\<close>) or is
  SUCCESSFUL (\<^verbatim>\<open>ValueError\<close>); for each of the five other statuses it hands the backend
  the call \<^verbatim>\<open>create_ocsp_response(status, None, None, None)\<close>: no builder (so no single
  response and no certificates), no private key and no algorithm.
\<close>

theorem build_unsuccessful_status_only:
  "(isl (build_unsuccessful s) \<longleftrightarrow>
      (\<not> is_OCSPResponseStatus s \<or> s = PyResponseStatus SUCCESSFUL))
   \<and> (\<not> is_OCSPResponseStatus s \<longrightarrow>
      build_unsuccessful s =
        Inl (TypeError ''response_status must be an item from OCSPResponseStatus''))
   \<and> build_unsuccessful (PyResponseStatus SUCCESSFUL) =
        Inl (ValueError ''response_status cannot be SUCCESSFUL'')
   \<and> (st \<in> {MALFORMED_REQUEST, INTERNAL_ERROR, TRY_LATER, SIG_REQUIRED, UNAUTHORIZED} \<longrightarrow>
      build_unsuccessful (PyResponseStatus st) =
        Inr (create_ocsp_response st None PyNone PyNone))"
  by (auto simp: build_unsuccessful_def)

theorem build_unsuccessful_status_only_witness:
  "isl (build_unsuccessful (PyInt 3))
   \<and> build_unsuccessful (PyInt 3) =
       Inl (TypeError ''response_status must be an item from OCSPResponseStatus'')
   \<and> isl (build_unsuccessful (PyResponseStatus SUCCESSFUL))
   \<and> \<not> isl (build_unsuccessful (PyResponseStatus TRY_LATER))
   \<and> build_unsuccessful (PyResponseStatus TRY_LATER) =
       Inr (create_ocsp_response TRY_LATER None PyNone PyNone)"
  using build_unsuccessful_status_only [where s = "PyInt 3" and st = TRY_LATER]
    build_unsuccessful_status_only [where s = "PyResponseStatus SUCCESSFUL"]
    build_unsuccessful_status_only [where s = "PyResponseStatus TRY_LATER"]
  by simp

section \<open>Occupied slots are checked first\<close>

text \<open>
  C10. On a builder whose once-only slot is occupied, the method that fills the slot
  raises the occupancy \<^verbatim>\<open>ValueError\<close> for every choice of arguments, valid or not:
  \<^verbatim>\<open>add_certificate\<close> with a certificate slot filled, \<^verbatim>\<open>add_response\<close> with a response
  set, \<^verbatim>\<open>responder_id\<close> with a responder id set, and \<^verbatim>\<open>certificates\<close> with a chain set.
\<close>

theorem occupancy_check_first:
  "(rq_request b \<noteq> None \<longrightarrow>
      add_certificate b c i a = Inl (ValueError ''Only one certificate can be added to a request''))
   \<and> (rs_response rb \<noteq> None \<longrightarrow>
      add_response rb c i a st tu nu rt rr = Inl (ValueError ''Only one response per OCSPResponse.''))
   \<and> (rs_responder_id rb \<noteq> None \<longrightarrow>
      responder_id rb enc rc = Inl (ValueError ''responder_id can only be set once''))
   \<and> (rs_certs rb \<noteq> None \<longrightarrow>
      certificates rb cs = Inl (ValueError ''certificates may only be set once''))"
  by (simp add: add_certificate_def add_response_def responder_id_def certificates_def)

theorem occupancy_check_first_witness:
  "add_certificate
      \<lparr>rq_request = Some (PyCertificate (Certificate 1), PyCertificate (Certificate 2), PyHash SHA1),
       rq_extensions = []\<rparr>
      (PyInt 7) PyNone (PyHash MD5) =
     Inl (ValueError ''Only one certificate can be added to a request'')
   \<and> add_response
      \<lparr>rs_response = Some \<lparr>cert = PyCertificate (Certificate 1),
          issuer = PyCertificate (Certificate 2), algorithm = PyHash SHA1,
          this_update = PyDatetime (mk_datetime 2020 1 1 0 0 0 0 None), next_update = PyNone,
          cert_status = PyCertStatus GOOD, revocation_time = PyNone,
          revocation_reason = PyNone\<rparr>,
       rs_responder_id = Some (PyCertificate (Certificate 2), PyResponderEncoding HASH),
       rs_certs = Some [PyCertificate (Certificate 2)], rs_extensions = []\<rparr>
      (PyInt 7) PyNone (PyHash MD5) (PyStr ''good'') PyNone (PyInt 0)
      (PyDatetime (mk_datetime 1900 1 1 0 0 0 0 None)) (PyBool True) =
     Inl (ValueError ''Only one response per OCSPResponse.'')
   \<and> responder_id
      \<lparr>rs_response = Some \<lparr>cert = PyCertificate (Certificate 1),
          issuer = PyCertificate (Certificate 2), algorithm = PyHash SHA1,
          this_update = PyDatetime (mk_datetime 2020 1 1 0 0 0 0 None), next_update = PyNone,
          cert_status = PyCertStatus GOOD, revocation_time = PyNone,
          revocation_reason = PyNone\<rparr>,
       rs_responder_id = Some (PyCertificate (Certificate 2), PyResponderEncoding HASH),
       rs_certs = Some [PyCertificate (Certificate 2)], rs_extensions = []\<rparr>
      (PyStr ''By Hash'') PyNone =
     Inl (ValueError ''responder_id can only be set once'')
   \<and> certificates
      \<lparr>rs_response = Some \<lparr>cert = PyCertificate (Certificate 1),
          issuer = PyCertificate (Certificate 2), algorithm = PyHash SHA1,
          this_update = PyDatetime (mk_datetime 2020 1 1 0 0 0 0 None), next_update = PyNone,
          cert_status = PyCertStatus GOOD, revocation_time = PyNone,
          revocation_reason = PyNone\<rparr>,
       rs_responder_id = Some (PyCertificate (Certificate 2), PyResponderEncoding HASH),
       rs_certs = Some [PyCertificate (Certificate 2)], rs_extensions = []\<rparr>
      [] =
     Inl (ValueError ''certificates may only be set once'')"
  using occupancy_check_first
    [where b = "\<lparr>rq_request = Some (PyCertificate (Certificate 1), PyCertificate (Certificate 2),
         PyHash SHA1), rq_extensions = []\<rparr>"
       and rb = "\<lparr>rs_response = Some \<lparr>cert = PyCertificate (Certificate 1),
          issuer = PyCertificate (Certificate 2), algorithm = PyHash SHA1,
          this_update = PyDatetime (mk_datetime 2020 1 1 0 0 0 0 None), next_update = PyNone,
          cert_status = PyCertStatus GOOD, revocation_time = PyNone,
          revocation_reason = PyNone\<rparr>,
       rs_responder_id = Some (PyCertificate (Certificate 2), PyResponderEncoding HASH),
       rs_certs = Some [PyCertificate (Certificate 2)], rs_extensions = []\<rparr>"]
  by simp

section \<open>Revocation fields and certificate status\<close>

text \<open>
  C1, as the claim states it, fails for \<^verbatim>\<open>revocation_reason\<close>: the reason is not
  populated if and only if the status is REVOKED. A REVOKED single response with a
  revocation time and with \<^verbatim>\<open>revocation_reason = None\<close> is built, and its reason stays
  \<^verbatim>\<open>None\<close>.
\<close>

theorem revoked_without_reason_counterexample:
  "add_response new_OCSPResponseBuilder (PyCertificate (Certificate 1))
      (PyCertificate (Certificate 2)) (PyHash SHA256) (PyCertStatus REVOKED)
      (PyDatetime (mk_datetime 2020 1 1 0 0 0 0 None)) PyNone
      (PyDatetime (mk_datetime 2019 1 1 0 0 0 0 None)) PyNone =
     Inr \<lparr>rs_response = Some
            \<lparr>cert = PyCertificate (Certificate 1), issuer = PyCertificate (Certificate 2),
             algorithm = PyHash SHA256,
             this_update = PyDatetime (mk_datetime 2020 1 1 0 0 0 0 None),
             next_update = PyNone, cert_status = PyCertStatus REVOKED,
             revocation_time = PyDatetime (mk_datetime 2019 1 1 0 0 0 0 None),
             revocation_reason = PyNone\<rparr>,
          rs_responder_id = None, rs_certs = None, rs_extensions = []\<rparr>"
  by (simp add: add_response_def SingleResponse_init_def new_OCSPResponseBuilder_def
        verify_algorithm_def isinstance_hashes_def ALLOWED_HASHES_def
        convert_to_naive_utc_time_def calendar_defs)

text \<open>
  C1, amended. \<^verbatim>\<open>add_response\<close> fails when the status is GOOD or UNKNOWN and either
  \<^verbatim>\<open>revocation_time\<close> or \<^verbatim>\<open>revocation_reason\<close> is not \<^verbatim>\<open>None\<close>, and fails when the
  status is REVOKED and \<^verbatim>\<open>revocation_time\<close> is \<^verbatim>\<open>None\<close>; where these checks are
  reached the errors are the two \<^verbatim>\<open>ValueError\<close>s and the \<^verbatim>\<open>TypeError\<close> of the source.
  In every single response that is built, \<^verbatim>\<open>revocation_time\<close> is populated if and only
  if the status is REVOKED, \<^verbatim>\<open>revocation_reason\<close> is populated only if the status is
  REVOKED (for a revoked certificate it is optional), and the reason stored is the one
  supplied, never a default.
\<close>

theorem revocation_fields_follow_status:
  "(st \<in> {PyCertStatus GOOD, PyCertStatus UNKNOWN} \<and> (rt \<noteq> PyNone \<or> rr \<noteq> PyNone) \<longrightarrow>
      isl (add_response rb c i a st tu nu rt rr))
   \<and> (st = PyCertStatus REVOKED \<and> rt = PyNone \<longrightarrow>
      isl (add_response rb c i a st tu nu rt rr))
   \<and> (rs_response rb = None \<and> is_Certificate c \<and> is_Certificate i \<and>
       verify_algorithm a = Inr () \<and> is_Datetime tu \<and> (nu = PyNone \<or> is_Datetime nu) \<and>
       st \<in> {PyCertStatus GOOD, PyCertStatus UNKNOWN} \<and> rt \<noteq> PyNone \<longrightarrow>
      add_response rb c i a st tu nu rt rr =
        Inl (ValueError ''revocation_time can only be provided if the certificate is revoked''))
   \<and> (rs_response rb = None \<and> is_Certificate c \<and> is_Certificate i \<and>
       verify_algorithm a = Inr () \<and> is_Datetime tu \<and> (nu = PyNone \<or> is_Datetime nu) \<and>
       st \<in> {PyCertStatus GOOD, PyCertStatus UNKNOWN} \<and> rt = PyNone \<and> rr \<noteq> PyNone \<longrightarrow>
      add_response rb c i a st tu nu rt rr =
        Inl (ValueError ''revocation_reason can only be provided if the certificate is revoked''))
   \<and> (rs_response rb = None \<and> is_Certificate c \<and> is_Certificate i \<and>
       verify_algorithm a = Inr () \<and> is_Datetime tu \<and> (nu = PyNone \<or> is_Datetime nu) \<and>
       st = PyCertStatus REVOKED \<and> rt = PyNone \<longrightarrow>
      add_response rb c i a st tu nu rt rr =
        Inl (TypeError ''revocation_time must be a datetime object''))
   \<and> (add_response rb c i a st tu nu rt rr = Inr rb' \<longrightarrow>
      (\<exists>sr. rs_response rb' = Some sr \<and> cert_status sr = st \<and>
         (revocation_time sr \<noteq> PyNone \<longleftrightarrow> st = PyCertStatus REVOKED) \<and>
         (revocation_reason sr \<noteq> PyNone \<longrightarrow> st = PyCertStatus REVOKED) \<and>
         revocation_reason sr = rr \<and>
         (rt \<noteq> PyNone \<longleftrightarrow> st = PyCertStatus REVOKED)))"
proof (intro conjI impI)
  assume "st \<in> {PyCertStatus GOOD, PyCertStatus UNKNOWN} \<and> (rt \<noteq> PyNone \<or> rr \<noteq> PyNone)"
  then have "isl (SingleResponse_init c i a st tu nu rt rr)"
    using SingleResponse_init_not_revoked [of st rt rr c i a tu nu] by auto
  then show "isl (add_response rb c i a st tu nu rt rr)"
    by (rule add_response_isl)
next
  assume "st = PyCertStatus REVOKED \<and> rt = PyNone"
  then have "isl (SingleResponse_init c i a st tu nu rt rr)"
    using SingleResponse_init_revoked_no_time [of rt c i a tu nu rr] by auto
  then show "isl (add_response rb c i a st tu nu rt rr)"
    by (rule add_response_isl)
next
  assume "rs_response rb = None \<and> is_Certificate c \<and> is_Certificate i \<and>
       verify_algorithm a = Inr () \<and> is_Datetime tu \<and> (nu = PyNone \<or> is_Datetime nu) \<and>
       st \<in> {PyCertStatus GOOD, PyCertStatus UNKNOWN} \<and> rt \<noteq> PyNone"
  then have "(st = PyCertStatus GOOD \<or> st = PyCertStatus UNKNOWN) \<and>
      SingleResponse_init c i a (PyCertStatus GOOD) tu nu rt rr =
        Inl (ValueError ''revocation_time can only be provided if the certificate is revoked'') \<and>
      SingleResponse_init c i a (PyCertStatus UNKNOWN) tu nu rt rr =
        Inl (ValueError ''revocation_time can only be provided if the certificate is revoked'') \<and>
      rs_response rb = None"
    by (simp add: SingleResponse_init_def)
  then show "add_response rb c i a st tu nu rt rr =
        Inl (ValueError ''revocation_time can only be provided if the certificate is revoked'')"
    by (elim conjE disjE) (simp_all add: add_response_def)
next
  assume "rs_response rb = None \<and> is_Certificate c \<and> is_Certificate i \<and>
       verify_algorithm a = Inr () \<and> is_Datetime tu \<and> (nu = PyNone \<or> is_Datetime nu) \<and>
       st \<in> {PyCertStatus GOOD, PyCertStatus UNKNOWN} \<and> rt = PyNone \<and> rr \<noteq> PyNone"
  then have "(st = PyCertStatus GOOD \<or> st = PyCertStatus UNKNOWN) \<and>
      SingleResponse_init c i a (PyCertStatus GOOD) tu nu rt rr =
        Inl (ValueError ''revocation_reason can only be provided if the certificate is revoked'') \<and>
      SingleResponse_init c i a (PyCertStatus UNKNOWN) tu nu rt rr =
        Inl (ValueError ''revocation_reason can only be provided if the certificate is revoked'') \<and>
      rs_response rb = None"
    by (simp add: SingleResponse_init_def)
  then show "add_response rb c i a st tu nu rt rr =
        Inl (ValueError ''revocation_reason can only be provided if the certificate is revoked'')"
    by (elim conjE disjE) (simp_all add: add_response_def)
next
  assume "rs_response rb = None \<and> is_Certificate c \<and> is_Certificate i \<and>
       verify_algorithm a = Inr () \<and> is_Datetime tu \<and> (nu = PyNone \<or> is_Datetime nu) \<and>
       st = PyCertStatus REVOKED \<and> rt = PyNone"
  then show "add_response rb c i a st tu nu rt rr =
        Inl (TypeError ''revocation_time must be a datetime object'')"
    by (simp add: add_response_def SingleResponse_init_def)
next
  assume "add_response rb c i a st tu nu rt rr = Inr rb'"
  then obtain sr where sr: "SingleResponse_init c i a st tu nu rt rr = Inr sr"
    and rb': "rs_response rb' = Some sr"
    using add_response_Inr [of rb c i a st tu nu rt rr rb'] by auto
  from SingleResponse_init_Inr [OF sr]
  have "cert_status sr = st \<and>
         (revocation_time sr \<noteq> PyNone \<longleftrightarrow> st = PyCertStatus REVOKED) \<and>
         (revocation_reason sr \<noteq> PyNone \<longrightarrow> st = PyCertStatus REVOKED) \<and>
         revocation_reason sr = rr \<and>
         (rt \<noteq> PyNone \<longleftrightarrow> st = PyCertStatus REVOKED)"
    by (elim conjE disjE exE) auto
  with rb' show "\<exists>sr. rs_response rb' = Some sr \<and> cert_status sr = st \<and>
         (revocation_time sr \<noteq> PyNone \<longleftrightarrow> st = PyCertStatus REVOKED) \<and>
         (revocation_reason sr \<noteq> PyNone \<longrightarrow> st = PyCertStatus REVOKED) \<and>
         revocation_reason sr = rr \<and>
         (rt \<noteq> PyNone \<longleftrightarrow> st = PyCertStatus REVOKED)"
    by blast
qed

theorem revocation_fields_follow_status_witness:
  "add_response new_OCSPResponseBuilder (PyCertificate (Certificate 1))
      (PyCertificate (Certificate 2)) (PyHash SHA256) (PyCertStatus GOOD)
      (PyDatetime (mk_datetime 2020 1 1 0 0 0 0 None)) PyNone
      (PyDatetime (mk_datetime 2019 1 1 0 0 0 0 None)) PyNone =
     Inl (ValueError ''revocation_time can only be provided if the certificate is revoked'')
   \<and> add_response new_OCSPResponseBuilder (PyCertificate (Certificate 1))
      (PyCertificate (Certificate 2)) (PyHash SHA256) (PyCertStatus UNKNOWN)
      (PyDatetime (mk_datetime 2020 1 1 0 0 0 0 None)) PyNone
      PyNone (PyReasonFlags (ReasonFlags ''keyCompromise'')) =
     Inl (ValueError ''revocation_reason can only be provided if the certificate is revoked'')
   \<and> add_response new_OCSPResponseBuilder (PyCertificate (Certificate 1))
      (PyCertificate (Certificate 2)) (PyHash SHA256) (PyCertStatus REVOKED)
      (PyDatetime (mk_datetime 2020 1 1 0 0 0 0 None)) PyNone PyNone PyNone =
     Inl (TypeError ''revocation_time must be a datetime object'')
   \<and> isl (add_response new_OCSPResponseBuilder (PyCertificate (Certificate 1))
      (PyCertificate (Certificate 2)) (PyHash SHA256) (PyCertStatus GOOD)
      (PyDatetime (mk_datetime 2020 1 1 0 0 0 0 None)) PyNone
      PyNone (PyReasonFlags (ReasonFlags ''keyCompromise'')))
   \<and> revocation_time
       \<lparr>cert = PyCertificate (Certificate 1), issuer = PyCertificate (Certificate 2),
        algorithm = PyHash SHA256,
        this_update = PyDatetime (mk_datetime 2020 1 1 0 0 0 0 None),
        next_update = PyNone, cert_status = PyCertStatus REVOKED,
        revocation_time = PyDatetime (mk_datetime 2019 1 1 0 0 0 0 None),
        revocation_reason = PyReasonFlags (ReasonFlags ''keyCompromise'')\<rparr> \<noteq> PyNone"
proof -
  have unset: "rs_response new_OCSPResponseBuilder = None"
    by (simp add: new_OCSPResponseBuilder_def)
  have good: "add_response new_OCSPResponseBuilder (PyCertificate (Certificate 1))
      (PyCertificate (Certificate 2)) (PyHash SHA256) (PyCertStatus GOOD)
      (PyDatetime (mk_datetime 2020 1 1 0 0 0 0 None)) PyNone
      (PyDatetime (mk_datetime 2019 1 1 0 0 0 0 None)) PyNone =
     Inl (ValueError ''revocation_time can only be provided if the certificate is revoked'')"
    using revocation_fields_follow_status
      [where rb = new_OCSPResponseBuilder and c = "PyCertificate (Certificate 1)"
         and i = "PyCertificate (Certificate 2)" and a = "PyHash SHA256"
         and st = "PyCertStatus GOOD" and tu = "PyDatetime (mk_datetime 2020 1 1 0 0 0 0 None)"
         and nu = PyNone and rt = "PyDatetime (mk_datetime 2019 1 1 0 0 0 0 None)"
         and rr = PyNone]
      unset verify_algorithm_SHA256
    by simp
  have unknown: "add_response new_OCSPResponseBuilder (PyCertificate (Certificate 1))
      (PyCertificate (Certificate 2)) (PyHash SHA256) (PyCertStatus UNKNOWN)
      (PyDatetime (mk_datetime 2020 1 1 0 0 0 0 None)) PyNone
      PyNone (PyReasonFlags (ReasonFlags ''keyCompromise'')) =
     Inl (ValueError ''revocation_reason can only be provided if the certificate is revoked'')"
    using revocation_fields_follow_status
      [where rb = new_OCSPResponseBuilder and c = "PyCertificate (Certificate 1)"
         and i = "PyCertificate (Certificate 2)" and a = "PyHash SHA256"
         and st = "PyCertStatus UNKNOWN" and tu = "PyDatetime (mk_datetime 2020 1 1 0 0 0 0 None)"
         and nu = PyNone and rt = PyNone
         and rr = "PyReasonFlags (ReasonFlags ''keyCompromise'')"]
      unset verify_algorithm_SHA256
    by simp
  have revoked: "add_response new_OCSPResponseBuilder (PyCertificate (Certificate 1))
      (PyCertificate (Certificate 2)) (PyHash SHA256) (PyCertStatus REVOKED)
      (PyDatetime (mk_datetime 2020 1 1 0 0 0 0 None)) PyNone PyNone PyNone =
     Inl (TypeError ''revocation_time must be a datetime object'')"
    using revocation_fields_follow_status
      [where rb = new_OCSPResponseBuilder and c = "PyCertificate (Certificate 1)"
         and i = "PyCertificate (Certificate 2)" and a = "PyHash SHA256"
         and st = "PyCertStatus REVOKED" and tu = "PyDatetime (mk_datetime 2020 1 1 0 0 0 0 None)"
         and nu = PyNone and rt = PyNone and rr = PyNone]
      unset verify_algorithm_SHA256
    by simp
  have fails: "isl (add_response new_OCSPResponseBuilder (PyCertificate (Certificate 1))
      (PyCertificate (Certificate 2)) (PyHash SHA256) (PyCertStatus GOOD)
      (PyDatetime (mk_datetime 2020 1 1 0 0 0 0 None)) PyNone
      PyNone (PyReasonFlags (ReasonFlags ''keyCompromise'')))"
    using revocation_fields_follow_status
      [where rb = new_OCSPResponseBuilder and c = "PyCertificate (Certificate 1)"
         and i = "PyCertificate (Certificate 2)" and a = "PyHash SHA256"
         and st = "PyCertStatus GOOD" and tu = "PyDatetime (mk_datetime 2020 1 1 0 0 0 0 None)"
         and nu = PyNone and rt = PyNone
         and rr = "PyReasonFlags (ReasonFlags ''keyCompromise'')"]
    by simp
  have built: "add_response new_OCSPResponseBuilder (PyCertificate (Certificate 1))
      (PyCertificate (Certificate 2)) (PyHash SHA256) (PyCertStatus REVOKED)
      (PyDatetime (mk_datetime 2020 1 1 0 0 0 0 None)) PyNone
      (PyDatetime (mk_datetime 2019 1 1 0 0 0 0 None))
      (PyReasonFlags (ReasonFlags ''keyCompromise'')) =
     Inr \<lparr>rs_response = Some
            \<lparr>cert = PyCertificate (Certificate 1), issuer = PyCertificate (Certificate 2),
             algorithm = PyHash SHA256,
             this_update = PyDatetime (mk_datetime 2020 1 1 0 0 0 0 None),
             next_update = PyNone, cert_status = PyCertStatus REVOKED,
             revocation_time = PyDatetime (mk_datetime 2019 1 1 0 0 0 0 None),
             revocation_reason = PyReasonFlags (ReasonFlags ''keyCompromise'')\<rparr>,
          rs_responder_id = None, rs_certs = None, rs_extensions = []\<rparr>"
    by (simp add: add_response_def SingleResponse_init_def new_OCSPResponseBuilder_def
        verify_algorithm_SHA256 convert_to_naive_utc_time_def calendar_defs)
  have populated: "revocation_time
       \<lparr>cert = PyCertificate (Certificate 1), issuer = PyCertificate (Certificate 2),
        algorithm = PyHash SHA256,
        this_update = PyDatetime (mk_datetime 2020 1 1 0 0 0 0 None),
        next_update = PyNone, cert_status = PyCertStatus REVOKED,
        revocation_time = PyDatetime (mk_datetime 2019 1 1 0 0 0 0 None),
        revocation_reason = PyReasonFlags (ReasonFlags ''keyCompromise'')\<rparr> \<noteq> PyNone"
    using revocation_fields_follow_status
      [where rb = new_OCSPResponseBuilder and c = "PyCertificate (Certificate 1)"
         and i = "PyCertificate (Certificate 2)" and a = "PyHash SHA256"
         and st = "PyCertStatus REVOKED" and tu = "PyDatetime (mk_datetime 2020 1 1 0 0 0 0 None)"
         and nu = PyNone and rt = "PyDatetime (mk_datetime 2019 1 1 0 0 0 0 None)"
         and rr = "PyReasonFlags (ReasonFlags ''keyCompromise'')"
         and rb' = "\<lparr>rs_response = Some
            \<lparr>cert = PyCertificate (Certificate 1), issuer = PyCertificate (Certificate 2),
             algorithm = PyHash SHA256,
             this_update = PyDatetime (mk_datetime 2020 1 1 0 0 0 0 None),
             next_update = PyNone, cert_status = PyCertStatus REVOKED,
             revocation_time = PyDatetime (mk_datetime 2019 1 1 0 0 0 0 None),
             revocation_reason = PyReasonFlags (ReasonFlags ''keyCompromise'')\<rparr>,
          rs_responder_id = None, rs_certs = None, rs_extensions = []\<rparr>"]
      built
    by simp
  from good unknown revoked fails populated show ?thesis by (intro conjI)
qed

section \<open>Timestamps of a single response\<close>

text \<open>
  C2, as the claim states it, fails for \<^verbatim>\<open>this_update\<close> (and \<^verbatim>\<open>next_update\<close>): they are
  only tested with \<^verbatim>\<open>isinstance\<close>. A \<^verbatim>\<open>this_update\<close> of 1949-01-01T12:00+02:00, which
  is 1949-01-01T10:00 in UTC and so before the floor, is accepted and stored as supplied,
  offset included; so is the same datetime as \<^verbatim>\<open>next_update\<close>.
\<close>

theorem this_update_before_floor_counterexample:
  "add_response new_OCSPResponseBuilder (PyCertificate (Certificate 1))
      (PyCertificate (Certificate 2)) (PyHash SHA256) (PyCertStatus GOOD)
      (PyDatetime (mk_datetime 1949 1 1 12 0 0 0 (Some 7200000000))) PyNone PyNone PyNone =
     Inr \<lparr>rs_response = Some
            \<lparr>cert = PyCertificate (Certificate 1), issuer = PyCertificate (Certificate 2),
             algorithm = PyHash SHA256,
             this_update = PyDatetime (mk_datetime 1949 1 1 12 0 0 0 (Some 7200000000)),
             next_update = PyNone, cert_status = PyCertStatus GOOD,
             revocation_time = PyNone, revocation_reason = PyNone\<rparr>,
          rs_responder_id = None, rs_certs = None, rs_extensions = []\<rparr>
   \<and> convert_to_naive_utc_time (mk_datetime 1949 1 1 12 0 0 0 (Some 7200000000)) =
       Inr (mk_datetime 1949 1 1 10 0 0 0 None)
   \<and> datetime_less (mk_datetime 1949 1 1 10 0 0 0 None) EARLIEST_UTC_TIME
   \<and> add_response new_OCSPResponseBuilder (PyCertificate (Certificate 1))
      (PyCertificate (Certificate 2)) (PyHash SHA256) (PyCertStatus GOOD)
      (PyDatetime (mk_datetime 2020 1 1 0 0 0 0 None))
      (PyDatetime (mk_datetime 1949 1 1 12 0 0 0 (Some 7200000000))) PyNone PyNone =
     Inr \<lparr>rs_response = Some
            \<lparr>cert = PyCertificate (Certificate 1), issuer = PyCertificate (Certificate 2),
             algorithm = PyHash SHA256,
             this_update = PyDatetime (mk_datetime 2020 1 1 0 0 0 0 None),
             next_update = PyDatetime (mk_datetime 1949 1 1 12 0 0 0 (Some 7200000000)),
             cert_status = PyCertStatus GOOD,
             revocation_time = PyNone, revocation_reason = PyNone\<rparr>,
          rs_responder_id = None, rs_certs = None, rs_extensions = []\<rparr>"
  by (simp add: add_response_def SingleResponse_init_def new_OCSPResponseBuilder_def
        verify_algorithm_def isinstance_hashes_def ALLOWED_HASHES_def
        convert_to_naive_utc_time_def calendar_defs)

text \<open>
  C2, amended. Of the timestamps of a single response only \<^verbatim>\<open>revocation_time\<close>, for
  status REVOKED, is normalized and compared with the floor: in every single response
  that is built \<^verbatim>\<open>this_update\<close> and \<^verbatim>\<open>next_update\<close> are the datetimes supplied, and for
  status REVOKED the stored \<^verbatim>\<open>revocation_time\<close> is the normalized, naive value of the
  one supplied and is not before 1950-01-01. A \<^verbatim>\<open>revocation_time\<close> whose normalized
  value is before the floor makes \<^verbatim>\<open>add_response\<close> fail, with the floor \<^verbatim>\<open>ValueError\<close>
  where that check is reached. Every datetime is accepted as \<^verbatim>\<open>this_update\<close> and as
  \<^verbatim>\<open>next_update\<close>, whatever its date and offset: with otherwise valid arguments
  \<^verbatim>\<open>add_response\<close> returns the builder, for status GOOD or UNKNOWN and for status
  REVOKED alike, and the single response holds both as supplied.
\<close>

theorem revocation_time_normalized_and_floored:
  "(add_response rb c i a st tu nu rt rr = Inr rb' \<longrightarrow>
      (\<exists>sr. rs_response rb' = Some sr \<and> this_update sr = tu \<and> next_update sr = nu \<and>
         is_Datetime tu \<and> (nu = PyNone \<or> is_Datetime nu) \<and>
         (st = PyCertStatus REVOKED \<longrightarrow>
            (\<exists>t. is_Datetime rt \<and> convert_to_naive_utc_time (as_Datetime rt) = Inr t \<and>
                 revocation_time sr = PyDatetime t \<and> utcoffset t = None \<and>
                 \<not> datetime_less t EARLIEST_UTC_TIME))))
   \<and> (convert_to_naive_utc_time t0 = Inr t \<and> datetime_less t EARLIEST_UTC_TIME \<longrightarrow>
      isl (add_response rb c i a (PyCertStatus REVOKED) tu nu (PyDatetime t0) rr))
   \<and> (rs_response rb = None \<and> is_Certificate c \<and> is_Certificate i \<and>
       verify_algorithm a = Inr () \<and> is_Datetime tu \<and> (nu = PyNone \<or> is_Datetime nu) \<and>
       convert_to_naive_utc_time t0 = Inr t \<and> datetime_less t EARLIEST_UTC_TIME \<longrightarrow>
      add_response rb c i a (PyCertStatus REVOKED) tu nu (PyDatetime t0) rr =
        Inl (ValueError ''The revocation_time must be on or after 1950 January 1.''))
   \<and> (rs_response rb = None \<and> is_Certificate c \<and> is_Certificate i \<and>
        verify_algorithm a = Inr () \<and> (nu = PyNone \<or> is_Datetime nu) \<and>
        st \<in> {PyCertStatus GOOD, PyCertStatus UNKNOWN} \<longrightarrow>
        add_response rb c i a st (PyDatetime tu') nu PyNone PyNone =
          Inr \<lparr>rs_response = Some
                 \<lparr>cert = c, issuer = i, algorithm = a, this_update = PyDatetime tu',
                  next_update = nu, cert_status = st, revocation_time = PyNone,
                  revocation_reason = PyNone\<rparr>,
               rs_responder_id = rs_responder_id rb, rs_certs = rs_certs rb,
               rs_extensions = rs_extensions rb\<rparr>)
   \<and> (rs_response rb = None \<and> is_Certificate c \<and> is_Certificate i \<and>
        verify_algorithm a = Inr () \<and> (nu = PyNone \<or> is_Datetime nu) \<and>
        convert_to_naive_utc_time t' = Inr t \<and> \<not> datetime_less t EARLIEST_UTC_TIME \<and>
        (rr = PyNone \<or> is_ReasonFlags rr) \<longrightarrow>
        add_response rb c i a (PyCertStatus REVOKED) (PyDatetime tu') nu (PyDatetime t') rr =
          Inr \<lparr>rs_response = Some
                 \<lparr>cert = c, issuer = i, algorithm = a, this_update = PyDatetime tu',
                  next_update = nu, cert_status = PyCertStatus REVOKED,
                  revocation_time = PyDatetime t, revocation_reason = rr\<rparr>,
               rs_responder_id = rs_responder_id rb, rs_certs = rs_certs rb,
               rs_extensions = rs_extensions rb\<rparr>)"
proof (intro conjI impI)
  assume "add_response rb c i a st tu nu rt rr = Inr rb'"
  then obtain sr where sr: "SingleResponse_init c i a st tu nu rt rr = Inr sr"
    and rb': "rs_response rb' = Some sr"
    using add_response_Inr [of rb c i a st tu nu rt rr rb'] by auto
  from SingleResponse_init_Inr [OF sr]
  have "this_update sr = tu \<and> next_update sr = nu \<and>
         is_Datetime tu \<and> (nu = PyNone \<or> is_Datetime nu) \<and>
         (st = PyCertStatus REVOKED \<longrightarrow>
            (\<exists>t. is_Datetime rt \<and> convert_to_naive_utc_time (as_Datetime rt) = Inr t \<and>
                 revocation_time sr = PyDatetime t \<and> utcoffset t = None \<and>
                 \<not> datetime_less t EARLIEST_UTC_TIME))"
    by (elim conjE disjE exE) (simp_all add: convert_to_naive_utc_time_naive)
  with rb' show "\<exists>sr. rs_response rb' = Some sr \<and> this_update sr = tu \<and> next_update sr = nu \<and>
         is_Datetime tu \<and> (nu = PyNone \<or> is_Datetime nu) \<and>
         (st = PyCertStatus REVOKED \<longrightarrow>
            (\<exists>t. is_Datetime rt \<and> convert_to_naive_utc_time (as_Datetime rt) = Inr t \<and>
                 revocation_time sr = PyDatetime t \<and> utcoffset t = None \<and>
                 \<not> datetime_less t EARLIEST_UTC_TIME))"
    by blast
next
  assume "convert_to_naive_utc_time t0 = Inr t \<and> datetime_less t EARLIEST_UTC_TIME"
  then have "isl (SingleResponse_init c i a (PyCertStatus REVOKED) tu nu (PyDatetime t0) rr)"
    using SingleResponse_init_before_floor [of t0 t c i a tu nu rr] by blast
  then show "isl (add_response rb c i a (PyCertStatus REVOKED) tu nu (PyDatetime t0) rr)"
    by (rule add_response_isl)
next
  assume "rs_response rb = None \<and> is_Certificate c \<and> is_Certificate i \<and>
       verify_algorithm a = Inr () \<and> is_Datetime tu \<and> (nu = PyNone \<or> is_Datetime nu) \<and>
       convert_to_naive_utc_time t0 = Inr t \<and> datetime_less t EARLIEST_UTC_TIME"
  then show "add_response rb c i a (PyCertStatus REVOKED) tu nu (PyDatetime t0) rr =
        Inl (ValueError ''The revocation_time must be on or after 1950 January 1.'')"
    by (simp add: add_response_def SingleResponse_init_def)
next
  assume "rs_response rb = None \<and> is_Certificate c \<and> is_Certificate i \<and>
        verify_algorithm a = Inr () \<and> (nu = PyNone \<or> is_Datetime nu) \<and>
        st \<in> {PyCertStatus GOOD, PyCertStatus UNKNOWN}"
  then show "add_response rb c i a st (PyDatetime tu') nu PyNone PyNone =
          Inr \<lparr>rs_response = Some
                 \<lparr>cert = c, issuer = i, algorithm = a, this_update = PyDatetime tu',
                  next_update = nu, cert_status = st, revocation_time = PyNone,
                  revocation_reason = PyNone\<rparr>,
               rs_responder_id = rs_responder_id rb, rs_certs = rs_certs rb,
               rs_extensions = rs_extensions rb\<rparr>"
    using add_response_not_revoked [of rb c i a nu st tu'] by simp
next
  assume "rs_response rb = None \<and> is_Certificate c \<and> is_Certificate i \<and>
        verify_algorithm a = Inr () \<and> (nu = PyNone \<or> is_Datetime nu) \<and>
        convert_to_naive_utc_time t' = Inr t \<and> \<not> datetime_less t EARLIEST_UTC_TIME \<and>
        (rr = PyNone \<or> is_ReasonFlags rr)"
  then show "add_response rb c i a (PyCertStatus REVOKED) (PyDatetime tu') nu (PyDatetime t') rr =
          Inr \<lparr>rs_response = Some
                 \<lparr>cert = c, issuer = i, algorithm = a, this_update = PyDatetime tu',
                  next_update = nu, cert_status = PyCertStatus REVOKED,
                  revocation_time = PyDatetime t, revocation_reason = rr\<rparr>,
               rs_responder_id = rs_responder_id rb, rs_certs = rs_certs rb,
               rs_extensions = rs_extensions rb\<rparr>"
    using add_response_revoked [of rb c i a nu t' t rr tu'] by simp
qed

theorem revocation_time_normalized_and_floored_witness:
  "add_response new_OCSPResponseBuilder (PyCertificate (Certificate 1))
      (PyCertificate (Certificate 2)) (PyHash SHA256) (PyCertStatus REVOKED)
      (PyDatetime (mk_datetime 2020 1 1 0 0 0 0 None)) PyNone
      (PyDatetime (mk_datetime 1949 1 1 12 0 0 0 (Some 7200000000))) PyNone =
     Inl (ValueError ''The revocation_time must be on or after 1950 January 1.'')
   \<and> isl (add_response new_OCSPResponseBuilder (PyInt 0) PyNone (PyHash SHA256)
      (PyCertStatus REVOKED) PyNone PyNone
      (PyDatetime (mk_datetime 1949 1 1 12 0 0 0 (Some 7200000000))) PyNone)
   \<and> utcoffset (mk_datetime 2019 1 1 10 0 0 0 None) = None
   \<and> \<not> datetime_less (mk_datetime 2019 1 1 10 0 0 0 None) EARLIEST_UTC_TIME
   \<and> add_response new_OCSPResponseBuilder (PyCertificate (Certificate 1))
      (PyCertificate (Certificate 2)) (PyHash SHA256) (PyCertStatus UNKNOWN)
      (PyDatetime (mk_datetime 1900 1 1 0 0 0 0 None))
      (PyDatetime (mk_datetime 1901 1 1 0 0 0 0 (Some 3600000000))) PyNone PyNone =
     Inr \<lparr>rs_response = Some
            \<lparr>cert = PyCertificate (Certificate 1), issuer = PyCertificate (Certificate 2),
             algorithm = PyHash SHA256,
             this_update = PyDatetime (mk_datetime 1900 1 1 0 0 0 0 None),
             next_update = PyDatetime (mk_datetime 1901 1 1 0 0 0 0 (Some 3600000000)),
             cert_status = PyCertStatus UNKNOWN,
             revocation_time = PyNone, revocation_reason = PyNone\<rparr>,
          rs_responder_id = None, rs_certs = None, rs_extensions = []\<rparr>"
proof -
  have unset: "rs_response new_OCSPResponseBuilder = None"
    by (simp add: new_OCSPResponseBuilder_def)
  have conv: "convert_to_naive_utc_time (mk_datetime 1949 1 1 12 0 0 0 (Some 7200000000)) =
      Inr (mk_datetime 1949 1 1 10 0 0 0 None)"
    by (simp add: convert_to_naive_utc_time_def calendar_defs)
  have early: "datetime_less (mk_datetime 1949 1 1 10 0 0 0 None) EARLIEST_UTC_TIME"
    by (simp add: calendar_defs)
  have floor: "add_response new_OCSPResponseBuilder (PyCertificate (Certificate 1))
      (PyCertificate (Certificate 2)) (PyHash SHA256) (PyCertStatus REVOKED)
      (PyDatetime (mk_datetime 2020 1 1 0 0 0 0 None)) PyNone
      (PyDatetime (mk_datetime 1949 1 1 12 0 0 0 (Some 7200000000))) PyNone =
     Inl (ValueError ''The revocation_time must be on or after 1950 January 1.'')"
    using revocation_time_normalized_and_floored
      [where rb = new_OCSPResponseBuilder and c = "PyCertificate (Certificate 1)"
         and i = "PyCertificate (Certificate 2)" and a = "PyHash SHA256"
         and tu = "PyDatetime (mk_datetime 2020 1 1 0 0 0 0 None)" and nu = PyNone
         and ?t0.0 = "mk_datetime 1949 1 1 12 0 0 0 (Some 7200000000)"
         and t = "mk_datetime 1949 1 1 10 0 0 0 None" and rr = PyNone
         and st = PyNone
         and rt = PyNone
         and rb' = new_OCSPResponseBuilder
         and tu' = "mk_datetime 2020 1 1 0 0 0 0 None"
         and t' = "mk_datetime 2020 1 1 0 0 0 0 None"]
      unset verify_algorithm_SHA256 conv early
    by simp
  have fails: "isl (add_response new_OCSPResponseBuilder (PyInt 0) PyNone (PyHash SHA256)
      (PyCertStatus REVOKED) PyNone PyNone
      (PyDatetime (mk_datetime 1949 1 1 12 0 0 0 (Some 7200000000))) PyNone)"
    using revocation_time_normalized_and_floored
      [where rb = new_OCSPResponseBuilder and c = "PyInt 0" and i = PyNone
         and a = "PyHash SHA256" and tu = PyNone and nu = PyNone
         and ?t0.0 = "mk_datetime 1949 1 1 12 0 0 0 (Some 7200000000)"
         and t = "mk_datetime 1949 1 1 10 0 0 0 None" and rr = PyNone
         and st = PyNone
         and rt = PyNone
         and rb' = new_OCSPResponseBuilder
         and tu' = "mk_datetime 2020 1 1 0 0 0 0 None"
         and t' = "mk_datetime 2020 1 1 0 0 0 0 None"]
      conv early
    by simp
  have built: "add_response new_OCSPResponseBuilder (PyCertificate (Certificate 1))
      (PyCertificate (Certificate 2)) (PyHash SHA256) (PyCertStatus REVOKED)
      (PyDatetime (mk_datetime 2020 1 1 0 0 0 0 None)) PyNone
      (PyDatetime (mk_datetime 2019 1 1 12 0 0 0 (Some 7200000000))) PyNone =
     Inr \<lparr>rs_response = Some
            \<lparr>cert = PyCertificate (Certificate 1), issuer = PyCertificate (Certificate 2),
             algorithm = PyHash SHA256,
             this_update = PyDatetime (mk_datetime 2020 1 1 0 0 0 0 None),
             next_update = PyNone, cert_status = PyCertStatus REVOKED,
             revocation_time = PyDatetime (mk_datetime 2019 1 1 10 0 0 0 None),
             revocation_reason = PyNone\<rparr>,
          rs_responder_id = None, rs_certs = None, rs_extensions = []\<rparr>"
    by (simp add: add_response_def SingleResponse_init_def new_OCSPResponseBuilder_def
        verify_algorithm_SHA256 convert_to_naive_utc_time_def calendar_defs)
  have conv': "convert_to_naive_utc_time (mk_datetime 2019 1 1 12 0 0 0 (Some 7200000000)) =
      Inr (mk_datetime 2019 1 1 10 0 0 0 None)"
    by (simp add: convert_to_naive_utc_time_def calendar_defs)
  have stored: "utcoffset (mk_datetime 2019 1 1 10 0 0 0 None) = None
      \<and> \<not> datetime_less (mk_datetime 2019 1 1 10 0 0 0 None) EARLIEST_UTC_TIME"
    using revocation_time_normalized_and_floored
      [where rb = new_OCSPResponseBuilder and c = "PyCertificate (Certificate 1)"
         and i = "PyCertificate (Certificate 2)" and a = "PyHash SHA256"
         and st = "PyCertStatus REVOKED"
         and tu = "PyDatetime (mk_datetime 2020 1 1 0 0 0 0 None)" and nu = PyNone
         and rt = "PyDatetime (mk_datetime 2019 1 1 12 0 0 0 (Some 7200000000))"
         and rr = PyNone
         and rb' = "\<lparr>rs_response = Some
            \<lparr>cert = PyCertificate (Certificate 1), issuer = PyCertificate (Certificate 2),
             algorithm = PyHash SHA256,
             this_update = PyDatetime (mk_datetime 2020 1 1 0 0 0 0 None),
             next_update = PyNone, cert_status = PyCertStatus REVOKED,
             revocation_time = PyDatetime (mk_datetime 2019 1 1 10 0 0 0 None),
             revocation_reason = PyNone\<rparr>,
          rs_responder_id = None, rs_certs = None, rs_extensions = []\<rparr>"
         and ?t0.0 = "mk_datetime 2020 1 1 0 0 0 0 None"
         and t = "mk_datetime 2020 1 1 0 0 0 0 None"
         and tu' = "mk_datetime 2020 1 1 0 0 0 0 None"
         and t' = "mk_datetime 2020 1 1 0 0 0 0 None"]
      built conv'
    by simp
  have early: "add_response new_OCSPResponseBuilder (PyCertificate (Certificate 1))
      (PyCertificate (Certificate 2)) (PyHash SHA256) (PyCertStatus UNKNOWN)
      (PyDatetime (mk_datetime 1900 1 1 0 0 0 0 None))
      (PyDatetime (mk_datetime 1901 1 1 0 0 0 0 (Some 3600000000))) PyNone PyNone =
     Inr \<lparr>rs_response = Some
            \<lparr>cert = PyCertificate (Certificate 1), issuer = PyCertificate (Certificate 2),
             algorithm = PyHash SHA256,
             this_update = PyDatetime (mk_datetime 1900 1 1 0 0 0 0 None),
             next_update = PyDatetime (mk_datetime 1901 1 1 0 0 0 0 (Some 3600000000)),
             cert_status = PyCertStatus UNKNOWN,
             revocation_time = PyNone, revocation_reason = PyNone\<rparr>,
          rs_responder_id = None, rs_certs = None, rs_extensions = []\<rparr>"
    using revocation_time_normalized_and_floored
      [where rb = new_OCSPResponseBuilder and c = "PyCertificate (Certificate 1)"
         and i = "PyCertificate (Certificate 2)" and a = "PyHash SHA256"
         and st = "PyCertStatus UNKNOWN" and tu' = "mk_datetime 1900 1 1 0 0 0 0 None"
         and nu = "PyDatetime (mk_datetime 1901 1 1 0 0 0 0 (Some 3600000000))"
         and tu = PyNone
         and rt = PyNone
         and rr = PyNone
         and rb' = new_OCSPResponseBuilder
         and ?t0.0 = "mk_datetime 2020 1 1 0 0 0 0 None"
         and t = "mk_datetime 2020 1 1 0 0 0 0 None"
         and t' = "mk_datetime 2020 1 1 0 0 0 0 None"]
      verify_algorithm_SHA256
    by (simp add: new_OCSPResponseBuilder_def)
  from floor fails stored [THEN conjunct1] stored [THEN conjunct2] early
  show ?thesis by (intro conjI)
qed

section \<open>Builder calls leave the receiver intact\<close>

text \<open>
  C9. For every call of a builder-returning method (\<^verbatim>\<open>add_certificate\<close> and
  \<^verbatim>\<open>add_extension\<close> of the request builder; \<^verbatim>\<open>add_response\<close>, \<^verbatim>\<open>responder_id\<close>,
  \<^verbatim>\<open>certificates\<close> and \<^verbatim>\<open>add_extension\<close> of the response builder), run on the store
  with a builder object \<open>self\<close> as receiver: every object that was in the store, the
  receiver among them, is unchanged afterwards; a call that raises leaves the store
  exactly as it was; a call that returns adds one new object, the returned builder, which
  is what the method computes from the receiver's attributes. Any further call on the
  same receiver, after a failed or a successful first call, has the outcome it would
  have had before the first call, and a valid call succeeds: each of the six methods,
  called with valid arguments on the receiver after the first call, returns a new builder
  that has the receiver's original attributes and the one attribute the method sets.
  Whenever a method returns a builder, all attributes but the one it sets are carried
  over from the receiver.
\<close>

theorem builder_calls_leave_receiver_intact:
  "(self < next_ref h \<and> request_call h self x = (h', r) \<longrightarrow>
      (\<forall>p < next_ref h. objects h' p = objects h p) \<and> (isl r \<longrightarrow> h' = h)
      \<and> (\<not> isl r \<longrightarrow> projr r = next_ref h \<and> next_ref h' = Suc (next_ref h) \<and>
            request_method x (objects h self) = Inr (objects h' (projr r)))
      \<and> map_sum id (objects (fst (request_call h' self y))) (snd (request_call h' self y)) =
            request_method y (objects h self)
      \<and> (rq_request (objects h self) = None \<and> is_Certificate c \<and> is_Certificate i \<and>
          a \<in> {PyHash SHA1, PyHash SHA224, PyHash SHA256, PyHash SHA384, PyHash SHA512} \<longrightarrow>
            add_certificate_call h' self c i a =
              new_object h' \<lparr>rq_request = Some (c, i, a),
                              rq_extensions = rq_extensions (objects h self)\<rparr>)
      \<and> (oid ev \<notin> ext_oid ` set (rq_extensions (objects h self)) \<longrightarrow>
            request_add_extension_call h' self (PyExtensionType ev) cr =
              new_object h' \<lparr>rq_request = rq_request (objects h self),
                rq_extensions = rq_extensions (objects h self) @ [mk_Extension ev cr]\<rparr>))
   \<and> (this < next_ref k \<and> response_call k this u = (k', q) \<longrightarrow>
      (\<forall>p < next_ref k. objects k' p = objects k p) \<and> (isl q \<longrightarrow> k' = k)
      \<and> (\<not> isl q \<longrightarrow> projr q = next_ref k \<and> next_ref k' = Suc (next_ref k) \<and>
            response_method u (objects k this) = Inr (objects k' (projr q)))
      \<and> map_sum id (objects (fst (response_call k' this v))) (snd (response_call k' this v)) =
            response_method v (objects k this)
      \<and> (rs_response (objects k this) = None \<and> is_Certificate c \<and> is_Certificate i \<and>
          a \<in> {PyHash SHA1, PyHash SHA224, PyHash SHA256, PyHash SHA384, PyHash SHA512} \<and>
          (nu = PyNone \<or> is_Datetime nu) \<and>
          st \<in> {PyCertStatus GOOD, PyCertStatus UNKNOWN} \<longrightarrow>
            add_response_call k' this c i a st (PyDatetime tu') nu PyNone PyNone =
              new_object k'
                \<lparr>rs_response = Some
                   \<lparr>cert = c, issuer = i, algorithm = a, this_update = PyDatetime tu',
                    next_update = nu, cert_status = st, revocation_time = PyNone,
                    revocation_reason = PyNone\<rparr>,
                 rs_responder_id = rs_responder_id (objects k this),
                 rs_certs = rs_certs (objects k this),
                 rs_extensions = rs_extensions (objects k this)\<rparr>)
      \<and> (rs_responder_id (objects k this) = None \<longrightarrow>
            responder_id_call k' this (PyResponderEncoding enc) (PyCertificate rc) =
              new_object k'
                \<lparr>rs_response = rs_response (objects k this),
                 rs_responder_id = Some (PyCertificate rc, PyResponderEncoding enc),
                 rs_certs = rs_certs (objects k this),
                 rs_extensions = rs_extensions (objects k this)\<rparr>)
      \<and> (rs_certs (objects k this) = None \<and> cs \<noteq> [] \<and> list_all is_Certificate cs \<longrightarrow>
            certificates_call k' this cs =
              new_object k'
                \<lparr>rs_response = rs_response (objects k this),
                 rs_responder_id = rs_responder_id (objects k this),
                 rs_certs = Some cs,
                 rs_extensions = rs_extensions (objects k this)\<rparr>)
      \<and> (oid ev \<notin> ext_oid ` set (rs_extensions (objects k this)) \<longrightarrow>
            response_add_extension_call k' this (PyExtensionType ev) cr =
              new_object k'
                \<lparr>rs_response = rs_response (objects k this),
                 rs_responder_id = rs_responder_id (objects k this),
                 rs_certs = rs_certs (objects k this),
                 rs_extensions = rs_extensions (objects k this) @ [mk_Extension ev cr]\<rparr>))
   \<and> snd (new_object h b) = Inr (next_ref h)
   \<and> objects (fst (new_object h b)) (next_ref h) = b
   \<and> (add_certificate b c i a = Inr b' \<longrightarrow>
      rq_request b' = Some (c, i, a) \<and> rq_extensions b' = rq_extensions b)
   \<and> (request_add_extension b extval crit = Inr b' \<longrightarrow>
      rq_request b' = rq_request b \<and>
      rq_extensions b' = rq_extensions b @ [mk_Extension (as_ExtensionType extval) crit])
   \<and> (add_response rb c i a st tu nu rt rr = Inr rb' \<longrightarrow>
      rs_responder_id rb' = rs_responder_id rb \<and> rs_certs rb' = rs_certs rb \<and>
      rs_extensions rb' = rs_extensions rb)
   \<and> (responder_id rb encoding responder_cert = Inr rb' \<longrightarrow>
      rs_responder_id rb' = Some (responder_cert, encoding) \<and>
      rs_response rb' = rs_response rb \<and> rs_certs rb' = rs_certs rb \<and>
      rs_extensions rb' = rs_extensions rb)
   \<and> (certificates rb certs = Inr rb' \<longrightarrow>
      rs_certs rb' = Some certs \<and> rs_response rb' = rs_response rb \<and>
      rs_responder_id rb' = rs_responder_id rb \<and> rs_extensions rb' = rs_extensions rb)
   \<and> (response_add_extension rb extval crit = Inr rb' \<longrightarrow>
      rs_response rb' = rs_response rb \<and> rs_responder_id rb' = rs_responder_id rb \<and>
      rs_certs rb' = rs_certs rb \<and>
      rs_extensions rb' = rs_extensions rb @ [mk_Extension (as_ExtensionType extval) crit])"
proof (intro conjI)
  show "self < next_ref h \<and> request_call h self x = (h', r) \<longrightarrow>
      (\<forall>p < next_ref h. objects h' p = objects h p) \<and> (isl r \<longrightarrow> h' = h)
      \<and> (\<not> isl r \<longrightarrow> projr r = next_ref h \<and> next_ref h' = Suc (next_ref h) \<and>
            request_method x (objects h self) = Inr (objects h' (projr r)))
      \<and> map_sum id (objects (fst (request_call h' self y))) (snd (request_call h' self y)) =
            request_method y (objects h self)
      \<and> (rq_request (objects h self) = None \<and> is_Certificate c \<and> is_Certificate i \<and>
          a \<in> {PyHash SHA1, PyHash SHA224, PyHash SHA256, PyHash SHA384, PyHash SHA512} \<longrightarrow>
            add_certificate_call h' self c i a =
              new_object h' \<lparr>rq_request = Some (c, i, a),
                              rq_extensions = rq_extensions (objects h self)\<rparr>)
      \<and> (oid ev \<notin> ext_oid ` set (rq_extensions (objects h self)) \<longrightarrow>
            request_add_extension_call h' self (PyExtensionType ev) cr =
              new_object h' \<lparr>rq_request = rq_request (objects h self),
                rq_extensions = rq_extensions (objects h self) @ [mk_Extension ev cr]\<rparr>)"
  proof (intro impI)
    assume A: "self < next_ref h \<and> request_call h self x = (h', r)"
    then have live: "self < next_ref h" and call: "request_call h self x = (h', r)"
      by simp_all
    note fr = request_call_frame [OF live call]
    from fr have same: "objects h' self = objects h self" by blast
    have out: "map_sum id (objects (fst (request_call h' self y)))
        (snd (request_call h' self y)) = request_method y (objects h self)"
      using request_call_outcome [of h' self y] same by simp
    have acc1: "rq_request (objects h self) = None \<and> is_Certificate c \<and> is_Certificate i \<and>
          a \<in> {PyHash SHA1, PyHash SHA224, PyHash SHA256, PyHash SHA384, PyHash SHA512} \<longrightarrow>
            add_certificate_call h' self c i a =
              new_object h' \<lparr>rq_request = Some (c, i, a),
                              rq_extensions = rq_extensions (objects h self)\<rparr>"
      using add_certificate_accepts [of "objects h self" c i a] same
      by (simp add: add_certificate_call_refines)
    have acc2: "oid ev \<notin> ext_oid ` set (rq_extensions (objects h self)) \<longrightarrow>
            request_add_extension_call h' self (PyExtensionType ev) cr =
              new_object h' \<lparr>rq_request = rq_request (objects h self),
                rq_extensions = rq_extensions (objects h self) @ [mk_Extension ev cr]\<rparr>"
      using request_add_extension_accepts [of ev "objects h self" cr] same
      by (simp add: request_add_extension_call_refines)
    from fr out acc1 acc2 show "(\<forall>p < next_ref h. objects h' p = objects h p) \<and> (isl r \<longrightarrow> h' = h)
      \<and> (\<not> isl r \<longrightarrow> projr r = next_ref h \<and> next_ref h' = Suc (next_ref h) \<and>
            request_method x (objects h self) = Inr (objects h' (projr r)))
      \<and> map_sum id (objects (fst (request_call h' self y))) (snd (request_call h' self y)) =
            request_method y (objects h self)
      \<and> (rq_request (objects h self) = None \<and> is_Certificate c \<and> is_Certificate i \<and>
          a \<in> {PyHash SHA1, PyHash SHA224, PyHash SHA256, PyHash SHA384, PyHash SHA512} \<longrightarrow>
            add_certificate_call h' self c i a =
              new_object h' \<lparr>rq_request = Some (c, i, a),
                              rq_extensions = rq_extensions (objects h self)\<rparr>)
      \<and> (oid ev \<notin> ext_oid ` set (rq_extensions (objects h self)) \<longrightarrow>
            request_add_extension_call h' self (PyExtensionType ev) cr =
              new_object h' \<lparr>rq_request = rq_request (objects h self),
                rq_extensions = rq_extensions (objects h self) @ [mk_Extension ev cr]\<rparr>)"
      by blast
  qed
  show "this < next_ref k \<and> response_call k this u = (k', q) \<longrightarrow>
      (\<forall>p < next_ref k. objects k' p = objects k p) \<and> (isl q \<longrightarrow> k' = k)
      \<and> (\<not> isl q \<longrightarrow> projr q = next_ref k \<and> next_ref k' = Suc (next_ref k) \<and>
            response_method u (objects k this) = Inr (objects k' (projr q)))
      \<and> map_sum id (objects (fst (response_call k' this v))) (snd (response_call k' this v)) =
            response_method v (objects k this)
      \<and> (rs_response (objects k this) = None \<and> is_Certificate c \<and> is_Certificate i \<and>
          a \<in> {PyHash SHA1, PyHash SHA224, PyHash SHA256, PyHash SHA384, PyHash SHA512} \<and>
          (nu = PyNone \<or> is_Datetime nu) \<and>
          st \<in> {PyCertStatus GOOD, PyCertStatus UNKNOWN} \<longrightarrow>
            add_response_call k' this c i a st (PyDatetime tu') nu PyNone PyNone =
              new_object k'
                \<lparr>rs_response = Some
                   \<lparr>cert = c, issuer = i, algorithm = a, this_update = PyDatetime tu',
                    next_update = nu, cert_status = st, revocation_time = PyNone,
                    revocation_reason = PyNone\<rparr>,
                 rs_responder_id = rs_responder_id (objects k this),
                 rs_certs = rs_certs (objects k this),
                 rs_extensions = rs_extensions (objects k this)\<rparr>)
      \<and> (rs_responder_id (objects k this) = None \<longrightarrow>
            responder_id_call k' this (PyResponderEncoding enc) (PyCertificate rc) =
              new_object k'
                \<lparr>rs_response = rs_response (objects k this),
                 rs_responder_id = Some (PyCertificate rc, PyResponderEncoding enc),
                 rs_certs = rs_certs (objects k this),
                 rs_extensions = rs_extensions (objects k this)\<rparr>)
      \<and> (rs_certs (objects k this) = None \<and> cs \<noteq> [] \<and> list_all is_Certificate cs \<longrightarrow>
            certificates_call k' this cs =
              new_object k'
                \<lparr>rs_response = rs_response (objects k this),
                 rs_responder_id = rs_responder_id (objects k this),
                 rs_certs = Some cs,
                 rs_extensions = rs_extensions (objects k this)\<rparr>)
      \<and> (oid ev \<notin> ext_oid ` set (rs_extensions (objects k this)) \<longrightarrow>
            response_add_extension_call k' this (PyExtensionType ev) cr =
              new_object k'
                \<lparr>rs_response = rs_response (objects k this),
                 rs_responder_id = rs_responder_id (objects k this),
                 rs_certs = rs_certs (objects k this),
                 rs_extensions = rs_extensions (objects k this) @ [mk_Extension ev cr]\<rparr>)"
  proof (intro impI)
    assume A: "this < next_ref k \<and> response_call k this u = (k', q)"
    then have live: "this < next_ref k" and call: "response_call k this u = (k', q)"
      by simp_all
    note fr = response_call_frame [OF live call]
    from fr have same: "objects k' this = objects k this" by blast
    have out: "map_sum id (objects (fst (response_call k' this v)))
        (snd (response_call k' this v)) = response_method v (objects k this)"
      using response_call_outcome [of k' this v] same by simp
    have acc1: "rs_response (objects k this) = None \<and> is_Certificate c \<and> is_Certificate i \<and>
          a \<in> {PyHash SHA1, PyHash SHA224, PyHash SHA256, PyHash SHA384, PyHash SHA512} \<and>
          (nu = PyNone \<or> is_Datetime nu) \<and>
          st \<in> {PyCertStatus GOOD, PyCertStatus UNKNOWN} \<longrightarrow>
            add_response_call k' this c i a st (PyDatetime tu') nu PyNone PyNone =
              new_object k'
                \<lparr>rs_response = Some
                   \<lparr>cert = c, issuer = i, algorithm = a, this_update = PyDatetime tu',
                    next_update = nu, cert_status = st, revocation_time = PyNone,
                    revocation_reason = PyNone\<rparr>,
                 rs_responder_id = rs_responder_id (objects k this),
                 rs_certs = rs_certs (objects k this),
                 rs_extensions = rs_extensions (objects k this)\<rparr>"
    proof (intro impI)
      assume H: "rs_response (objects k this) = None \<and> is_Certificate c \<and> is_Certificate i \<and>
          a \<in> {PyHash SHA1, PyHash SHA224, PyHash SHA256, PyHash SHA384, PyHash SHA512} \<and>
          (nu = PyNone \<or> is_Datetime nu) \<and>
          st \<in> {PyCertStatus GOOD, PyCertStatus UNKNOWN}"
      then have va: "verify_algorithm a = Inr ()"
        by (simp only: verify_algorithm_Inr)
      from H have "add_response (objects k this) c i a st (PyDatetime tu') nu PyNone PyNone =
        Inr \<lparr>rs_response = Some
                   \<lparr>cert = c, issuer = i, algorithm = a, this_update = PyDatetime tu',
                    next_update = nu, cert_status = st, revocation_time = PyNone,
                    revocation_reason = PyNone\<rparr>,
                 rs_responder_id = rs_responder_id (objects k this),
                 rs_certs = rs_certs (objects k this),
                 rs_extensions = rs_extensions (objects k this)\<rparr>"
        using add_response_not_revoked [of "objects k this" c i a nu st tu'] va by simp
      with same show "add_response_call k' this c i a st (PyDatetime tu') nu PyNone PyNone =
              new_object k'
                \<lparr>rs_response = Some
                   \<lparr>cert = c, issuer = i, algorithm = a, this_update = PyDatetime tu',
                    next_update = nu, cert_status = st, revocation_time = PyNone,
                    revocation_reason = PyNone\<rparr>,
                 rs_responder_id = rs_responder_id (objects k this),
                 rs_certs = rs_certs (objects k this),
                 rs_extensions = rs_extensions (objects k this)\<rparr>"
        by (simp add: add_response_call_refines)
    qed
    have acc2: "rs_responder_id (objects k this) = None \<longrightarrow>
            responder_id_call k' this (PyResponderEncoding enc) (PyCertificate rc) =
              new_object k'
                \<lparr>rs_response = rs_response (objects k this),
                 rs_responder_id = Some (PyCertificate rc, PyResponderEncoding enc),
                 rs_certs = rs_certs (objects k this),
                 rs_extensions = rs_extensions (objects k this)\<rparr>"
      using responder_id_accepts [of "objects k this" enc rc] same
      by (simp add: responder_id_call_refines)
    have acc3: "rs_certs (objects k this) = None \<and> cs \<noteq> [] \<and> list_all is_Certificate cs \<longrightarrow>
            certificates_call k' this cs =
              new_object k'
                \<lparr>rs_response = rs_response (objects k this),
                 rs_responder_id = rs_responder_id (objects k this),
                 rs_certs = Some cs,
                 rs_extensions = rs_extensions (objects k this)\<rparr>"
      using certificates_accepts [of "objects k this" cs] same
      by (simp add: certificates_call_refines)
    have acc4: "oid ev \<notin> ext_oid ` set (rs_extensions (objects k this)) \<longrightarrow>
            response_add_extension_call k' this (PyExtensionType ev) cr =
              new_object k'
                \<lparr>rs_response = rs_response (objects k this),
                 rs_responder_id = rs_responder_id (objects k this),
                 rs_certs = rs_certs (objects k this),
                 rs_extensions = rs_extensions (objects k this) @ [mk_Extension ev cr]\<rparr>"
      using response_add_extension_accepts [of ev "objects k this" cr] same
      by (simp add: response_add_extension_call_refines)
    from fr have fr': "(\<forall>p < next_ref k. objects k' p = objects k p) \<and> (isl q \<longrightarrow> k' = k)
      \<and> (\<not> isl q \<longrightarrow> projr q = next_ref k \<and> next_ref k' = Suc (next_ref k) \<and>
            response_method u (objects k this) = Inr (objects k' (projr q)))"
      by blast
    show "(\<forall>p < next_ref k. objects k' p = objects k p) \<and> (isl q \<longrightarrow> k' = k)
      \<and> (\<not> isl q \<longrightarrow> projr q = next_ref k \<and> next_ref k' = Suc (next_ref k) \<and>
            response_method u (objects k this) = Inr (objects k' (projr q)))
      \<and> map_sum id (objects (fst (response_call k' this v))) (snd (response_call k' this v)) =
            response_method v (objects k this)
      \<and> (rs_response (objects k this) = None \<and> is_Certificate c \<and> is_Certificate i \<and>
          a \<in> {PyHash SHA1, PyHash SHA224, PyHash SHA256, PyHash SHA384, PyHash SHA512} \<and>
          (nu = PyNone \<or> is_Datetime nu) \<and>
          st \<in> {PyCertStatus GOOD, PyCertStatus UNKNOWN} \<longrightarrow>
            add_response_call k' this c i a st (PyDatetime tu') nu PyNone PyNone =
              new_object k'
                \<lparr>rs_response = Some
                   \<lparr>cert = c, issuer = i, algorithm = a, this_update = PyDatetime tu',
                    next_update = nu, cert_status = st, revocation_time = PyNone,
                    revocation_reason = PyNone\<rparr>,
                 rs_responder_id = rs_responder_id (objects k this),
                 rs_certs = rs_certs (objects k this),
                 rs_extensions = rs_extensions (objects k this)\<rparr>)
      \<and> (rs_responder_id (objects k this) = None \<longrightarrow>
            responder_id_call k' this (PyResponderEncoding enc) (PyCertificate rc) =
              new_object k'
                \<lparr>rs_response = rs_response (objects k this),
                 rs_responder_id = Some (PyCertificate rc, PyResponderEncoding enc),
                 rs_certs = rs_certs (objects k this),
                 rs_extensions = rs_extensions (objects k this)\<rparr>)
      \<and> (rs_certs (objects k this) = None \<and> cs \<noteq> [] \<and> list_all is_Certificate cs \<longrightarrow>
            certificates_call k' this cs =
              new_object k'
                \<lparr>rs_response = rs_response (objects k this),
                 rs_responder_id = rs_responder_id (objects k this),
                 rs_certs = Some cs,
                 rs_extensions = rs_extensions (objects k this)\<rparr>)
      \<and> (oid ev \<notin> ext_oid ` set (rs_extensions (objects k this)) \<longrightarrow>
            response_add_extension_call k' this (PyExtensionType ev) cr =
              new_object k'
                \<lparr>rs_response = rs_response (objects k this),
                 rs_responder_id = rs_responder_id (objects k this),
                 rs_certs = rs_certs (objects k this),
                 rs_extensions = rs_extensions (objects k this) @ [mk_Extension ev cr]\<rparr>)"
      by (intro conjI) (use fr' out acc1 acc2 acc3 acc4 in \<open>(rule acc1 acc2 acc3 acc4 out | blast)+\<close>)
  qed
  show "snd (new_object h b) = Inr (next_ref h)"
    by (simp add: new_object_def)
  show "objects (fst (new_object h b)) (next_ref h) = b"
    by (simp add: new_object_def)
  show "add_certificate b c i a = Inr b' \<longrightarrow>
      rq_request b' = Some (c, i, a) \<and> rq_extensions b' = rq_extensions b"
    using request_method_frame [of "AddCertificate c i a" b b'] by simp
  show "request_add_extension b extval crit = Inr b' \<longrightarrow>
      rq_request b' = rq_request b \<and>
      rq_extensions b' = rq_extensions b @ [mk_Extension (as_ExtensionType extval) crit]"
    using request_method_frame [of "RequestAddExtension extval crit" b b'] by simp
  show "add_response rb c i a st tu nu rt rr = Inr rb' \<longrightarrow>
      rs_responder_id rb' = rs_responder_id rb \<and> rs_certs rb' = rs_certs rb \<and>
      rs_extensions rb' = rs_extensions rb"
    using response_method_frame [of "AddResponse c i a st tu nu rt rr" rb rb'] by simp
  show "responder_id rb encoding responder_cert = Inr rb' \<longrightarrow>
      rs_responder_id rb' = Some (responder_cert, encoding) \<and>
      rs_response rb' = rs_response rb \<and> rs_certs rb' = rs_certs rb \<and>
      rs_extensions rb' = rs_extensions rb"
    using response_method_frame [of "ResponderId encoding responder_cert" rb rb'] by simp
  show "certificates rb certs = Inr rb' \<longrightarrow>
      rs_certs rb' = Some certs \<and> rs_response rb' = rs_response rb \<and>
      rs_responder_id rb' = rs_responder_id rb \<and> rs_extensions rb' = rs_extensions rb"
    using response_method_frame [of "Certificates certs" rb rb'] by simp
  show "response_add_extension rb extval crit = Inr rb' \<longrightarrow>
      rs_response rb' = rs_response rb \<and> rs_responder_id rb' = rs_responder_id rb \<and>
      rs_certs rb' = rs_certs rb \<and>
      rs_extensions rb' = rs_extensions rb @ [mk_Extension (as_ExtensionType extval) crit]"
    using response_method_frame [of "ResponseAddExtension extval crit" rb rb'] by simp
qed

theorem builder_calls_leave_receiver_intact_witness:
  "request_call \<lparr>objects = (\<lambda>p. new_OCSPRequestBuilder), next_ref = 1\<rparr> 0
      (AddCertificate (PyCertificate (Certificate 1)) (PyCertificate (Certificate 2))
         (PyHash MD5)) =
     (\<lparr>objects = (\<lambda>p. new_OCSPRequestBuilder), next_ref = 1\<rparr>,
      Inl (ValueError ''Algorithm must be SHA1, SHA224, SHA256, SHA384, or SHA512''))
   \<and> add_certificate_call \<lparr>objects = (\<lambda>p. new_OCSPRequestBuilder), next_ref = 1\<rparr> 0
      (PyCertificate (Certificate 1)) (PyCertificate (Certificate 2)) (PyHash SHA256) =
     new_object \<lparr>objects = (\<lambda>p. new_OCSPRequestBuilder), next_ref = 1\<rparr>
       \<lparr>rq_request = Some (PyCertificate (Certificate 1), PyCertificate (Certificate 2),
            PyHash SHA256), rq_extensions = []\<rparr>
   \<and> snd (new_object \<lparr>objects = (\<lambda>p. new_OCSPRequestBuilder), next_ref = 1\<rparr>
       \<lparr>rq_request = Some (PyCertificate (Certificate 1), PyCertificate (Certificate 2),
            PyHash SHA256), rq_extensions = []\<rparr>) = Inr 1
   \<and> response_call \<lparr>objects = (\<lambda>p. new_OCSPResponseBuilder), next_ref = 1\<rparr> 0
      (Certificates []) =
     (\<lparr>objects = (\<lambda>p. new_OCSPResponseBuilder), next_ref = 1\<rparr>,
      Inl (ValueError ''certs must not be an empty list''))
   \<and> certificates_call \<lparr>objects = (\<lambda>p. new_OCSPResponseBuilder), next_ref = 1\<rparr> 0
      [PyCertificate (Certificate 1)] =
     new_object \<lparr>objects = (\<lambda>p. new_OCSPResponseBuilder), next_ref = 1\<rparr>
       \<lparr>rs_response = None, rs_responder_id = None,
        rs_certs = Some [PyCertificate (Certificate 1)], rs_extensions = []\<rparr>"
proof -
  have bad: "request_call \<lparr>objects = (\<lambda>p. new_OCSPRequestBuilder), next_ref = 1\<rparr> 0
      (AddCertificate (PyCertificate (Certificate 1)) (PyCertificate (Certificate 2))
         (PyHash MD5)) =
     (\<lparr>objects = (\<lambda>p. new_OCSPRequestBuilder), next_ref = 1\<rparr>,
      Inl (ValueError ''Algorithm must be SHA1, SHA224, SHA256, SHA384, or SHA512''))"
    by (simp add: add_certificate_call_def new_OCSPRequestBuilder_def
          verify_algorithm_def isinstance_hashes_def ALLOWED_HASHES_def)
  have slot: "rq_request new_OCSPRequestBuilder = None"
    and exts: "rq_extensions new_OCSPRequestBuilder = []"
    by (simp_all add: new_OCSPRequestBuilder_def)
  have again: "add_certificate_call \<lparr>objects = (\<lambda>p. new_OCSPRequestBuilder), next_ref = 1\<rparr> 0
      (PyCertificate (Certificate 1)) (PyCertificate (Certificate 2)) (PyHash SHA256) =
     new_object \<lparr>objects = (\<lambda>p. new_OCSPRequestBuilder), next_ref = 1\<rparr>
       \<lparr>rq_request = Some (PyCertificate (Certificate 1), PyCertificate (Certificate 2),
            PyHash SHA256), rq_extensions = []\<rparr>"
    using builder_calls_leave_receiver_intact
      [where h = "\<lparr>objects = (\<lambda>p. new_OCSPRequestBuilder), next_ref = 1\<rparr>" and self = 0
         and x = "AddCertificate (PyCertificate (Certificate 1))
           (PyCertificate (Certificate 2)) (PyHash MD5)"
         and h' = "\<lparr>objects = (\<lambda>p. new_OCSPRequestBuilder), next_ref = 1\<rparr>"
         and r = "Inl (ValueError ''Algorithm must be SHA1, SHA224, SHA256, SHA384, or SHA512'')"
         and c = "PyCertificate (Certificate 1)" and i = "PyCertificate (Certificate 2)"
         and a = "PyHash SHA256"]
      bad slot exts
    by simp
  have ref: "snd (new_object \<lparr>objects = (\<lambda>p. new_OCSPRequestBuilder), next_ref = 1\<rparr>
       \<lparr>rq_request = Some (PyCertificate (Certificate 1), PyCertificate (Certificate 2),
            PyHash SHA256), rq_extensions = []\<rparr>) = Inr 1"
    using builder_calls_leave_receiver_intact
      [where h = "\<lparr>objects = (\<lambda>p. new_OCSPRequestBuilder), next_ref = 1\<rparr>"
         and b = "\<lparr>rq_request = Some (PyCertificate (Certificate 1),
            PyCertificate (Certificate 2), PyHash SHA256), rq_extensions = []\<rparr>"]
    by simp
  have bad': "response_call \<lparr>objects = (\<lambda>p. new_OCSPResponseBuilder), next_ref = 1\<rparr> 0
      (Certificates []) =
     (\<lparr>objects = (\<lambda>p. new_OCSPResponseBuilder), next_ref = 1\<rparr>,
      Inl (ValueError ''certs must not be an empty list''))"
    by (simp add: certificates_call_def new_OCSPResponseBuilder_def)
  have fields: "rs_certs new_OCSPResponseBuilder = None"
    "rs_response new_OCSPResponseBuilder = None"
    "rs_responder_id new_OCSPResponseBuilder = None"
    "rs_extensions new_OCSPResponseBuilder = []"
    by (simp_all add: new_OCSPResponseBuilder_def)
  have again': "certificates_call \<lparr>objects = (\<lambda>p. new_OCSPResponseBuilder), next_ref = 1\<rparr> 0
      [PyCertificate (Certificate 1)] =
     new_object \<lparr>objects = (\<lambda>p. new_OCSPResponseBuilder), next_ref = 1\<rparr>
       \<lparr>rs_response = None, rs_responder_id = None,
        rs_certs = Some [PyCertificate (Certificate 1)], rs_extensions = []\<rparr>"
    using builder_calls_leave_receiver_intact
      [where k = "\<lparr>objects = (\<lambda>p. new_OCSPResponseBuilder), next_ref = 1\<rparr>" and this = 0
         and u = "Certificates []"
         and k' = "\<lparr>objects = (\<lambda>p. new_OCSPResponseBuilder), next_ref = 1\<rparr>"
         and q = "Inl (ValueError ''certs must not be an empty list'')"
         and cs = "[PyCertificate (Certificate 1)]"]
      bad' fields
    by simp
  from bad again ref bad' again' show ?thesis
    by (intro conjI)
qed

end
